theory Spec2Isabelle
  imports Complex_Main
begin

section \<open>JavaScript values\<close>

text \<open>
  The adapter and both shells handle values typed \<open>any\<close>: request bodies, tool
  arguments and provider responses. They are modelled as a datatype of JavaScript
  values. An object is the list of its own properties in insertion order (the order
  \<open>JSON.stringify\<close> prints them in); a lookup takes the first entry of a key.

  A number is an IEEE double: a finite value (read as a real; the program does no
  arithmetic on numbers, it only compares and tests them), an infinity or NaN.
\<close>

datatype jsnum = Fin real | PosInf | NegInf | NaN

datatype jsval =
    JUndefined
  | JNull
  | JBool bool
  | JNum jsnum
  | JStr string
  | JArr "jsval list"
  | JObj "(string \<times> jsval) list"

text \<open>\<open>a <= b\<close> and \<open>a < b\<close> on numbers: every comparison with NaN is false.\<close>

fun num_le :: "jsnum \<Rightarrow> jsnum \<Rightarrow> bool" where
  "num_le NaN _ = False"
| "num_le _ NaN = False"
| "num_le NegInf _ = True"
| "num_le _ PosInf = True"
| "num_le (Fin a) (Fin b) = (a \<le> b)"
| "num_le _ _ = False"

fun num_lt :: "jsnum \<Rightarrow> jsnum \<Rightarrow> bool" where
  "num_lt NaN _ = False"
| "num_lt _ NaN = False"
| "num_lt PosInf _ = False"
| "num_lt _ NegInf = False"
| "num_lt (Fin a) (Fin b) = (a < b)"
| "num_lt _ _ = True"

text \<open>ToBoolean: \<open>undefined\<close>, \<open>null\<close>, \<open>false\<close>, \<open>0\<close>, \<open>NaN\<close> and \<open>''\<close> are falsy.\<close>

fun truthy :: "jsval \<Rightarrow> bool" where
  "truthy JUndefined = False"
| "truthy JNull = False"
| "truthy (JBool b) = b"
| "truthy (JNum (Fin x)) = (x \<noteq> 0)"
| "truthy (JNum NaN) = False"
| "truthy (JNum _) = True"
| "truthy (JStr s) = (s \<noteq> [])"
| "truthy (JArr _) = True"
| "truthy (JObj _) = True"

fun nullish :: "jsval \<Rightarrow> bool" where
  "nullish JUndefined = True"
| "nullish JNull = True"
| "nullish _ = False"

text \<open>The \<open>typeof\<close> operator; \<open>null\<close> and arrays are \<open>'object'\<close>.\<close>

fun typeof :: "jsval \<Rightarrow> string" where
  "typeof JUndefined = ''undefined''"
| "typeof JNull = ''object''"
| "typeof (JBool _) = ''boolean''"
| "typeof (JNum _) = ''number''"
| "typeof (JStr _) = ''string''"
| "typeof (JArr _) = ''object''"
| "typeof (JObj _) = ''object''"

text \<open>\<open>a || b\<close> and \<open>a && b\<close> return one of their operands.\<close>

definition or_else :: "jsval \<Rightarrow> jsval \<Rightarrow> jsval" where
  "or_else a b = (if truthy a then a else b)"

definition and_then :: "jsval \<Rightarrow> jsval \<Rightarrow> jsval" where
  "and_then a b = (if truthy a then b else a)"

text \<open>
  \<open>v?.k\<close>: \<open>undefined\<close> on a nullish base, the property otherwise. The property
  names this program reads (\<open>id\<close>, \<open>name\<close>, \<open>lat\<close>, \<open>text\<close>, ...) are not defined on
  primitives and arrays, so these yield \<open>undefined\<close> as a missing property does.
\<close>

fun opt_chain :: "jsval \<Rightarrow> string \<Rightarrow> jsval" where
  "opt_chain (JObj fs) k = (case map_of fs k of Some v \<Rightarrow> v | None \<Rightarrow> JUndefined)"
| "opt_chain _ k = JUndefined"

text \<open>
  Errors are \<open>Error\<close> instances: the three properties the error handler reads.
  A thrown error is the \<open>Inl\<close> of a result.
\<close>

record js_error =
  err_name :: string
  err_message :: string
  err_code :: jsval

definition new_Error :: "string \<Rightarrow> js_error" where
  "new_Error msg = \<lparr>err_name = ''Error'', err_message = msg, err_code = JUndefined\<rparr>"

text \<open>
  What the program takes from the JavaScript runtime and does not define itself:
  \<open>JSON.stringify(v, null, 2)\<close>, the conversion of a number to a string inside a
  template literal, and the engine's wording of a \<open>TypeError\<close> (given the expression
  that failed).
\<close>

record runtime =
  JSON_stringify :: "jsval \<Rightarrow> string"
  Number_toString :: "jsnum \<Rightarrow> string"
  TypeError_message :: "string \<Rightarrow> string"

definition TypeError :: "runtime \<Rightarrow> string \<Rightarrow> js_error" where
  "TypeError rt what =
     \<lparr>err_name = ''TypeError'', err_message = TypeError_message rt what, err_code = JUndefined\<rparr>"

text \<open>\<open>v.k\<close>: a \<open>TypeError\<close> on a nullish base.\<close>

definition member :: "runtime \<Rightarrow> jsval \<Rightarrow> string \<Rightarrow> js_error + jsval" where
  "member rt v k = (if nullish v then Inl (TypeError rt k) else Inr (opt_chain v k))"

text \<open>ToString, as a template literal applies it.\<close>

fun join_comma :: "string list \<Rightarrow> string" where
  "join_comma [] = []"
| "join_comma [s] = s"
| "join_comma (s # t) = s @ '','' @ join_comma t"

fun toString :: "runtime \<Rightarrow> jsval \<Rightarrow> string" where
  "toString rt JUndefined = ''undefined''"
| "toString rt JNull = ''null''"
| "toString rt (JBool b) = (if b then ''true'' else ''false'')"
| "toString rt (JNum n) = Number_toString rt n"
| "toString rt (JStr s) = s"
| "toString rt (JArr xs) =
     join_comma (map (\<lambda>x. if nullish x then [] else toString rt x) xs)"
| "toString rt (JObj _) = ''[object Object]''"

text \<open>
  Strings are lists of 8-bit characters. \<open>String.prototype.trim\<close> removes white space
  at both ends; in this range that is TAB, LF, VT, FF, CR, space and NBSP.
\<close>

definition is_ws :: "char \<Rightarrow> bool" where
  "is_ws c = (c \<in> set [CHR 0x09, CHR 0x0A, CHR 0x0B, CHR 0x0C, CHR 0x0D, CHR 0x20, CHR 0xA0])"

definition trim :: "string \<Rightarrow> string" where
  "trim s = rev (dropWhile is_ws (rev (dropWhile is_ws s)))"

text \<open>\<open>s.includes(sub)\<close>: \<open>sub\<close> occurs in \<open>s\<close> as a contiguous run.\<close>

fun starts_with :: "string \<Rightarrow> string \<Rightarrow> bool" where
  "starts_with s [] = True"
| "starts_with [] (c # sub) = False"
| "starts_with (d # s) (c # sub) = (d = c \<and> starts_with s sub)"

fun str_includes :: "string \<Rightarrow> string \<Rightarrow> bool" where
  "str_includes [] sub = (sub = [])"
| "str_includes (c # s) sub = (starts_with (c # s) sub \<or> str_includes s sub)"

text \<open>\<open>s.split('/')\<close>: always at least one piece; \<open>.pop()\<close> then takes the last one.\<close>

fun str_split :: "char \<Rightarrow> string \<Rightarrow> string list" where
  "str_split sep [] = [[]]"
| "str_split sep (c # s) =
     (if c = sep then [] # str_split sep s
      else (case str_split sep s of
              [] \<Rightarrow> [[c]]
            | piece # rest \<Rightarrow> (c # piece) # rest))"

definition pop :: "string list \<Rightarrow> jsval" where
  "pop xs = (case xs of [] \<Rightarrow> JUndefined | _ \<Rightarrow> JStr (last xs))"

text \<open>
  \<open>v.slice(0, n)\<close>: defined on arrays and on strings; any other value has no such
  method and the call throws.
\<close>

fun slice0 :: "runtime \<Rightarrow> nat \<Rightarrow> jsval \<Rightarrow> js_error + jsval" where
  "slice0 rt n (JArr xs) = Inr (JArr (take n xs))"
| "slice0 rt n (JStr s) = Inr (JStr (take n s))"
| "slice0 rt n _ = Inl (TypeError rt ''slice'')"

text \<open>\<open>xs.map(f)\<close> with a callback that may throw: the first throw ends the loop.\<close>

fun map_throwing :: "('a \<Rightarrow> js_error + 'b) \<Rightarrow> 'a list \<Rightarrow> js_error + 'b list" where
  "map_throwing f [] = Inr []"
| "map_throwing f (x # xs) =
     (case f x of
        Inl e \<Rightarrow> Inl e
      | Inr y \<Rightarrow> (case map_throwing f xs of Inl e \<Rightarrow> Inl e | Inr ys \<Rightarrow> Inr (y # ys)))"


text \<open>The operand of a comparison that a \<open>typeof ... === 'number'\<close> test guards.\<close>

definition as_number :: "jsval \<Rightarrow> jsnum" where
  "as_number v = (case v of JNum x \<Rightarrow> x | _ \<Rightarrow> NaN)"

text \<open>
  \<open>...v\<close> inside an object literal: the own properties of an object, nothing for
  \<open>undefined\<close>, \<open>null\<close>, a boolean, a number or \<open>''\<close>. The program spreads objects and
  falsy values only.
\<close>

definition spread :: "jsval \<Rightarrow> (string \<times> jsval) list" where
  "spread v = (case v of JObj fs \<Rightarrow> fs | _ \<Rightarrow> [])"

section \<open>The process environment and the provider client\<close>

record environment =
  GOOGLE_PLACES_API_KEY :: "string option"
  NODE_ENV :: "string option"

definition env_value :: "string option \<Rightarrow> jsval" where
  "env_value v = (case v of None \<Rightarrow> JUndefined | Some s \<Rightarrow> JStr s)"

text \<open>
  The provider client is an external capability. A call carries the request object and
  the \<open>X-Goog-FieldMask\<close> header; it throws, or resolves to a tuple whose first
  component (\<open>response[0]\<close>) is the value modelled here.
\<close>

datatype provider_call =
    SearchText jsval string
  | GetPlace jsval string
  | SearchNearby jsval string

type_synonym PlacesClient = "provider_call \<Rightarrow> js_error + jsval"

text \<open>
  What a request does besides answering: the adapter methods it invokes (with their
  arguments) and the calls that reach the provider, in order.
\<close>

datatype event =
    Adapter string "jsval list"
  | Provider provider_call

section \<open>The adapter: \<open>PlacesService\<close>\<close>

subsection \<open>Inbound mapping\<close>

text \<open>\<open>name?.split('/').pop()\<close>\<close>

fun split_pop :: "runtime \<Rightarrow> jsval \<Rightarrow> js_error + jsval" where
  "split_pop rt JUndefined = Inr JUndefined"
| "split_pop rt JNull = Inr JUndefined"
| "split_pop rt (JStr s) = Inr (pop (str_split CHR ''/'' s))"
| "split_pop rt _ = Inl (TypeError rt ''split'')"

text \<open>The callback of \<open>formatSearchResults\<close>: one provider place to one result.\<close>

definition formatSearchResult :: "runtime \<Rightarrow> jsval \<Rightarrow> js_error + jsval" where
  "formatSearchResult rt place =
     (case member rt place ''id'' of
        Inl e \<Rightarrow> Inl e
      | Inr pid \<Rightarrow>
          (case (if truthy pid then Inr pid else split_pop rt (opt_chain place ''name'')) of
             Inl e \<Rightarrow> Inl e
           | Inr ident \<Rightarrow>
               Inr (JObj
                 [(''id'', ident),
                  (''name'', or_else (opt_chain (opt_chain place ''displayName'') ''text'')
                                     (JStr ''Unknown'')),
                  (''address'', or_else (opt_chain place ''formattedAddress'')
                                        (JStr ''Address not available'')),
                  (''location'', JObj
                     [(''lat'', or_else (opt_chain (opt_chain place ''location'') ''latitude'')
                                        (JNum (Fin 0))),
                      (''lng'', or_else (opt_chain (opt_chain place ''location'') ''longitude'')
                                        (JNum (Fin 0)))]),
                  (''rating'', opt_chain place ''rating''),
                  (''priceLevel'', opt_chain place ''priceLevel''),
                  (''types'', or_else (opt_chain place ''types'') (JArr [])),
                  (''isOpen'', opt_chain (opt_chain place ''currentOpeningHours'') ''openNow'')])))"

definition formatSearchResults :: "runtime \<Rightarrow> jsval \<Rightarrow> js_error + jsval list" where
  "formatSearchResults rt places =
     (case places of
        JArr ps \<Rightarrow> map_throwing (formatSearchResult rt) ps
      | _ \<Rightarrow> Inl (TypeError rt ''map''))"

text \<open>\<open>v?.slice(0, n).map(f) || []\<close>\<close>

definition slice_map ::
  "runtime \<Rightarrow> nat \<Rightarrow> (jsval \<Rightarrow> js_error + jsval) \<Rightarrow> jsval \<Rightarrow> js_error + jsval" where
  "slice_map rt n f v =
     (if nullish v then Inr (or_else JUndefined (JArr []))
      else (case slice0 rt n v of
              Inl e \<Rightarrow> Inl e
            | Inr (JArr xs) \<Rightarrow>
                (case map_throwing f xs of
                   Inl e \<Rightarrow> Inl e
                 | Inr ys \<Rightarrow> Inr (or_else (JArr ys) (JArr [])))
            | Inr _ \<Rightarrow> Inl (TypeError rt ''map'')))"

definition formatReview :: "runtime \<Rightarrow> jsval \<Rightarrow> js_error + jsval" where
  "formatReview rt review =
     (case member rt review ''rating'' of
        Inl e \<Rightarrow> Inl e
      | Inr rating \<Rightarrow>
          Inr (JObj
            [(''rating'', rating),
             (''text'', or_else (opt_chain (opt_chain review ''text'') ''text'') (JStr [])),
             (''author'', or_else (opt_chain (opt_chain review ''authorAttribution'') ''displayName'')
                                  (JStr ''Anonymous'')),
             (''time'', opt_chain review ''publishTime'')]))"

definition media_url :: "runtime \<Rightarrow> environment \<Rightarrow> jsval \<Rightarrow> string" where
  "media_url rt env photoName =
     ''https://places.googleapis.com/v1/'' @ toString rt photoName
       @ ''/media?maxHeightPx=400&maxWidthPx=400&key=''
       @ toString rt (env_value (GOOGLE_PLACES_API_KEY env))"

text \<open>The photo callback of the field-mask revision: \<open>photo.name || photo.photoReference\<close>.\<close>

definition formatPhoto :: "runtime \<Rightarrow> environment \<Rightarrow> jsval \<Rightarrow> js_error + jsval" where
  "formatPhoto rt env photo =
     (case member rt photo ''name'' of
        Inl e \<Rightarrow> Inl e
      | Inr nm \<Rightarrow>
          Inr (JStr (media_url rt env (or_else nm (opt_chain photo ''photoReference'')))))"

text \<open>The photo callback of the earlier revision: \<open>photo.name\<close> alone.\<close>

definition formatPhoto_bare :: "runtime \<Rightarrow> environment \<Rightarrow> jsval \<Rightarrow> js_error + jsval" where
  "formatPhoto_bare rt env photo =
     (case member rt photo ''name'' of
        Inl e \<Rightarrow> Inl e
      | Inr nm \<Rightarrow> Inr (JStr (media_url rt env nm)))"

text \<open>
  \<open>formatPlaceDetails\<close>, with the photo callback as a parameter: the two revisions of the
  adapter differ in nothing else. The spread keys and the five added keys are distinct,
  so the object literal is the concatenation.
\<close>

definition formatPlaceDetails_with ::
  "(jsval \<Rightarrow> js_error + jsval) \<Rightarrow> runtime \<Rightarrow> jsval \<Rightarrow> js_error + jsval" where
  "formatPlaceDetails_with photo_cb rt place =
     (case formatSearchResults rt (JArr [place]) of
        Inl e \<Rightarrow> Inl e
      | Inr formatted \<Rightarrow>
          (let baseInfo = (case formatted of [] \<Rightarrow> JUndefined | b # _ \<Rightarrow> b) in
           case slice_map rt 5 (formatReview rt) (opt_chain place ''reviews'') of
             Inl e \<Rightarrow> Inl e
           | Inr reviews \<Rightarrow>
               (case slice_map rt 5 photo_cb (opt_chain place ''photos'') of
                  Inl e \<Rightarrow> Inl e
                | Inr photos \<Rightarrow>
                    Inr (JObj (spread baseInfo @
                      [(''phoneNumber'', opt_chain place ''nationalPhoneNumber''),
                       (''website'', opt_chain place ''websiteUri''),
                       (''openingHours'',
                          or_else (opt_chain (opt_chain place ''currentOpeningHours'')
                                             ''weekdayDescriptions'')
                                  (JArr [])),
                       (''reviews'', reviews),
                       (''photos'', photos)])))))"

definition formatPlaceDetails :: "runtime \<Rightarrow> environment \<Rightarrow> jsval \<Rightarrow> js_error + jsval" where
  "formatPlaceDetails rt env place = formatPlaceDetails_with (formatPhoto rt env) rt place"

definition formatPlaceDetails_bare :: "runtime \<Rightarrow> environment \<Rightarrow> jsval \<Rightarrow> js_error + jsval" where
  "formatPlaceDetails_bare rt env place =
     formatPlaceDetails_with (formatPhoto_bare rt env) rt place"


subsection \<open>Outbound mapping\<close>

text \<open>
  A failure inside a method's \<open>try\<close> block is caught and replaced by one generic
  error; the events so far stay. (The \<open>console.error\<close> output is not modelled, only the
  reads that build its argument, where they can throw.)
\<close>

definition rethrow_as ::
  "string \<Rightarrow> (js_error + 'a) \<times> event list \<Rightarrow> (js_error + 'a) \<times> event list" where
  "rethrow_as msg r =
     (case fst r of Inl e \<Rightarrow> (Inl (new_Error msg), snd r) | Inr v \<Rightarrow> (Inr v, snd r))"

definition search_fieldMask :: string where
  "search_fieldMask = join_comma
     [''places.id'', ''places.displayName'', ''places.formattedAddress'', ''places.location'',
      ''places.rating'', ''places.priceLevel'', ''places.types'',
      ''places.currentOpeningHours.openNow'']"

definition details_fieldMask :: string where
  "details_fieldMask = join_comma
     [''id'', ''displayName'', ''formattedAddress'', ''location'', ''rating'', ''priceLevel'',
      ''types'', ''currentOpeningHours'', ''nationalPhoneNumber'', ''websiteUri'', ''reviews'',
      ''photos'']"

text \<open>
  The request object of \<open>searchPlaces\<close>. Destructuring a nullish \<open>params\<close> throws; the
  default \<open>radius = 5000\<close> applies to \<open>undefined\<close> only. The two conditional
  assignments add their key after the two of the literal.
\<close>

definition searchPlaces_request :: "runtime \<Rightarrow> jsval \<Rightarrow> js_error + jsval" where
  "searchPlaces_request rt params =
     (if nullish params then Inl (TypeError rt ''params'')
      else
        (let query = opt_chain params ''query'';
             location = opt_chain params ''location'';
             radius = (if opt_chain params ''radius'' = JUndefined then JNum (Fin 5000)
                       else opt_chain params ''radius'');
             type = opt_chain params ''type''
         in Inr (JObj
              ([(''textQuery'', query), (''maxResultCount'', JNum (Fin 10))]
               @ (if truthy location
                  then [(''locationBias'', JObj
                          [(''circle'', JObj
                             [(''center'', JObj
                                 [(''latitude'', opt_chain location ''lat''),
                                  (''longitude'', opt_chain location ''lng'')]),
                              (''radius'', radius)])])]
                  else [])
               @ (if truthy type then [(''includedType'', type)] else [])))))"

text \<open>
  The \<open>catch\<close> block of \<open>searchPlaces\<close> reads \<open>params.query\<close> and \<open>params.location\<close> for
  its log entry before it throws the generic error. On a nullish \<open>params\<close> (where the
  destructuring has thrown) that read throws in its turn, and the \<open>TypeError\<close> leaves
  the method in place of the generic error.
\<close>

definition searchPlaces_catch ::
  "runtime \<Rightarrow> jsval \<Rightarrow> (js_error + 'a) \<times> event list \<Rightarrow> (js_error + 'a) \<times> event list" where
  "searchPlaces_catch rt params r =
     (case fst r of
        Inl e \<Rightarrow>
          (case member rt params ''query'' of
             Inl thrown \<Rightarrow> (Inl thrown, snd r)
           | Inr query \<Rightarrow> (Inl (new_Error ''Failed to search places''), snd r))
      | Inr v \<Rightarrow> (Inr v, snd r))"

definition PlacesService_searchPlaces ::
  "runtime \<Rightarrow> PlacesClient \<Rightarrow> jsval \<Rightarrow> (js_error + jsval list) \<times> event list" where
  "PlacesService_searchPlaces rt client params =
     searchPlaces_catch rt params
       (case searchPlaces_request rt params of
          Inl e \<Rightarrow> (Inl e, [])
        | Inr request \<Rightarrow>
            (case client (SearchText request search_fieldMask) of
               Inl e \<Rightarrow> (Inl e, [Provider (SearchText request search_fieldMask)])
             | Inr response \<Rightarrow>
                 ((case member rt response ''places'' of
                     Inl e \<Rightarrow> Inl e
                   | Inr places \<Rightarrow> formatSearchResults rt (or_else places (JArr []))),
                  [Provider (SearchText request search_fieldMask)])))"

definition PlacesService_getPlaceDetails ::
  "runtime \<Rightarrow> environment \<Rightarrow> PlacesClient \<Rightarrow> jsval \<Rightarrow> (js_error + jsval) \<times> event list" where
  "PlacesService_getPlaceDetails rt env client placeId =
     rethrow_as ''Failed to get place details''
       (let request = JObj [(''name'', JStr (''places/'' @ toString rt placeId))] in
        case client (GetPlace request details_fieldMask) of
          Inl e \<Rightarrow> (Inl e, [Provider (GetPlace request details_fieldMask)])
        | Inr place \<Rightarrow>
            (formatPlaceDetails rt env place, [Provider (GetPlace request details_fieldMask)]))"

text \<open>The default \<open>radius: number = 5000\<close> of a parameter applies to \<open>undefined\<close> only.\<close>

definition default_radius :: "jsval \<Rightarrow> jsval" where
  "default_radius radius = (if radius = JUndefined then JNum (Fin 5000) else radius)"

definition findNearbyPlaces_request ::
  "runtime \<Rightarrow> jsval \<Rightarrow> jsval \<Rightarrow> jsval \<Rightarrow> js_error + jsval" where
  "findNearbyPlaces_request rt location type radius =
     (case member rt location ''lat'' of
        Inl e \<Rightarrow> Inl e
      | Inr lat \<Rightarrow>
          Inr (JObj
            [(''includedTypes'', JArr [type]),
             (''maxResultCount'', JNum (Fin 10)),
             (''locationRestriction'', JObj
                [(''circle'', JObj
                   [(''center'', JObj
                       [(''latitude'', lat), (''longitude'', opt_chain location ''lng'')]),
                    (''radius'', radius)])])]))"

definition PlacesService_findNearbyPlaces ::
  "runtime \<Rightarrow> PlacesClient \<Rightarrow> jsval \<Rightarrow> jsval \<Rightarrow> jsval \<Rightarrow> (js_error + jsval list) \<times> event list" where
  "PlacesService_findNearbyPlaces rt client location type radius0 =
     (let radius = default_radius radius0 in
      rethrow_as ''Failed to find nearby places''
        (case findNearbyPlaces_request rt location type radius of
           Inl e \<Rightarrow> (Inl e, [])
         | Inr request \<Rightarrow>
             (case client (SearchNearby request search_fieldMask) of
                Inl e \<Rightarrow> (Inl e, [Provider (SearchNearby request search_fieldMask)])
              | Inr response \<Rightarrow>
                  ((case member rt response ''places'' of
                      Inl e \<Rightarrow> Inl e
                    | Inr places \<Rightarrow> formatSearchResults rt (or_else places (JArr []))),
                   [Provider (SearchNearby request search_fieldMask)]))))"

subsection \<open>The lazily created instance\<close>

text \<open>
  \<open>placesService.instance\<close> builds the service on first use; the constructor throws when
  the credential is missing or empty. The environment does not change, so every use
  succeeds or every use fails. The throw happens outside the methods' \<open>try\<close> blocks.
\<close>

definition placesService_instance :: "environment \<Rightarrow> js_error + unit" where
  "placesService_instance env =
     (if \<not> truthy (env_value (GOOGLE_PLACES_API_KEY env))
      then Inl (new_Error ''GOOGLE_PLACES_API_KEY environment variable is required'')
      else Inr ())"

definition searchPlaces ::
  "runtime \<Rightarrow> environment \<Rightarrow> PlacesClient \<Rightarrow> jsval \<Rightarrow> (js_error + jsval list) \<times> event list" where
  "searchPlaces rt env client params =
     (case placesService_instance env of
        Inl e \<Rightarrow> (Inl e, [Adapter ''searchPlaces'' [params]])
      | Inr _ \<Rightarrow>
          (let r = PlacesService_searchPlaces rt client params
           in (fst r, Adapter ''searchPlaces'' [params] # snd r)))"

definition getPlaceDetails ::
  "runtime \<Rightarrow> environment \<Rightarrow> PlacesClient \<Rightarrow> jsval \<Rightarrow> (js_error + jsval) \<times> event list" where
  "getPlaceDetails rt env client placeId =
     (case placesService_instance env of
        Inl e \<Rightarrow> (Inl e, [Adapter ''getPlaceDetails'' [placeId]])
      | Inr _ \<Rightarrow>
          (let r = PlacesService_getPlaceDetails rt env client placeId
           in (fst r, Adapter ''getPlaceDetails'' [placeId] # snd r)))"

definition findNearbyPlaces ::
  "runtime \<Rightarrow> environment \<Rightarrow> PlacesClient \<Rightarrow> jsval \<Rightarrow> jsval \<Rightarrow> jsval \<Rightarrow>
     (js_error + jsval list) \<times> event list" where
  "findNearbyPlaces rt env client location type radius0 =
     (let radius = default_radius radius0 in
      case placesService_instance env of
        Inl e \<Rightarrow> (Inl e, [Adapter ''findNearbyPlaces'' [location, type, radius0]])
      | Inr _ \<Rightarrow>
          (let r = PlacesService_findNearbyPlaces rt client location type radius
           in (fst r, Adapter ''findNearbyPlaces'' [location, type, radius0] # snd r)))"


section \<open>The HTTP shell\<close>

text \<open>
  \<open>res.status(n).json(v)\<close>; \<open>res.json(v)\<close> alone answers with status 200. The body
  parser leaves \<open>req.body\<close> an object, given here by its properties. The path is the
  list of its (decoded, non-empty) segments below the mount point \<open>/api/places\<close>.
\<close>

record http_response =
  status :: nat
  json :: jsval

datatype http_method = GET | POST | PUT | DELETE

record http_request =
  req_method :: http_method
  req_path :: "string list"
  req_body :: "(string \<times> jsval) list"

subsection \<open>Validators\<close>

definition isValidLocation :: "jsval \<Rightarrow> bool" where
  "isValidLocation location =
     (truthy location \<and>
      typeof location = ''object'' \<and>
      typeof (opt_chain location ''lat'') = ''number'' \<and>
      typeof (opt_chain location ''lng'') = ''number'' \<and>
      num_le (Fin (- 90)) (as_number (opt_chain location ''lat'')) \<and>
      num_le (as_number (opt_chain location ''lat'')) (Fin 90) \<and>
      num_le (Fin (- 180)) (as_number (opt_chain location ''lng'')) \<and>
      num_le (as_number (opt_chain location ''lng'')) (Fin 180))"

text \<open>\<open>typeof v !== 'string' || v.trim().length === 0\<close>\<close>

definition not_nonblank_string :: "jsval \<Rightarrow> bool" where
  "not_nonblank_string v =
     (typeof v \<noteq> ''string'' \<or> (case v of JStr s \<Rightarrow> length (trim s) = 0 | _ \<Rightarrow> True))"

text \<open>\<open>typeof radius !== 'number' || radius <= 0 || radius > 50000\<close>\<close>

definition bad_radius :: "jsval \<Rightarrow> bool" where
  "bad_radius radius =
     (typeof radius \<noteq> ''number'' \<or> num_le (as_number radius) (Fin 0)
      \<or> num_lt (Fin 50000) (as_number radius))"

definition bad_request :: "string \<Rightarrow> http_response" where
  "bad_request msg =
     \<lparr>status = 400, json = JObj [(''success'', JBool False), (''error'', JStr msg)]\<rparr>"

text \<open>A validator answers the request itself (\<open>Some\<close>) or calls \<open>next()\<close> (\<open>None\<close>).\<close>

definition validateSearchParams :: "(string \<times> jsval) list \<Rightarrow> http_response option" where
  "validateSearchParams body =
     (let query = opt_chain (JObj body) ''query'';
          location = opt_chain (JObj body) ''location'';
          radius = opt_chain (JObj body) ''radius'';
          type = opt_chain (JObj body) ''type''
      in if \<not> truthy query \<or> not_nonblank_string query
         then Some (bad_request ''Query parameter is required and must be a non-empty string'')
         else if truthy location \<and> \<not> isValidLocation location
         then Some (bad_request ''Location must have valid lat and lng properties'')
         else if radius \<noteq> JUndefined \<and> bad_radius radius
         then Some (bad_request ''Radius must be a number between 1 and 50000 meters'')
         else if type \<noteq> JUndefined \<and> not_nonblank_string type
         then Some (bad_request ''Type must be a non-empty string if provided'')
         else None)"

definition validateLocationParams :: "(string \<times> jsval) list \<Rightarrow> http_response option" where
  "validateLocationParams body =
     (let location = opt_chain (JObj body) ''location'';
          type = opt_chain (JObj body) ''type'';
          radius = opt_chain (JObj body) ''radius''
      in if \<not> truthy location \<or> \<not> isValidLocation location
         then Some (bad_request ''Valid location with lat and lng properties is required'')
         else if \<not> truthy type \<or> not_nonblank_string type
         then Some (bad_request ''Type parameter is required and must be a non-empty string'')
         else if radius \<noteq> JUndefined \<and> bad_radius radius
         then Some (bad_request ''Radius must be a number between 1 and 50000 meters'')
         else None)"

subsection \<open>The error handler\<close>

definition errorHandler :: "environment \<Rightarrow> js_error \<Rightarrow> http_response" where
  "errorHandler env error =
     (if str_includes (err_message error) ''quota'' \<or> err_code error = JStr ''OVER_QUERY_LIMIT''
      then \<lparr>status = 429, json = JObj
              [(''success'', JBool False),
               (''error'', JStr ''API quota exceeded. Please try again later.''),
               (''code'', JStr ''QUOTA_EXCEEDED'')]\<rparr>
      else if str_includes (err_message error) ''API key'' \<or> err_code error = JStr ''REQUEST_DENIED''
      then \<lparr>status = 401, json = JObj
              [(''success'', JBool False),
               (''error'', JStr ''Invalid API key configuration.''),
               (''code'', JStr ''INVALID_API_KEY'')]\<rparr>
      else if err_name error = ''ValidationError''
      then \<lparr>status = 400, json = JObj
              [(''success'', JBool False),
               (''error'', JStr (err_message error)),
               (''code'', JStr ''VALIDATION_ERROR'')]\<rparr>
      else \<lparr>status = 500, json = JObj
              ([(''success'', JBool False),
                (''error'', JStr ''Internal server error occurred.''),
                (''code'', JStr ''INTERNAL_ERROR'')]
               @ (if NODE_ENV env = Some ''development''
                  then [(''details'', JStr (err_message error))] else []))\<rparr>)"

subsection \<open>The routes of \<open>placesRouter\<close>\<close>

text \<open>A handler answers (\<open>Sent\<close>) or passes an error on (\<open>Next_error\<close>).\<close>

datatype handled = Sent http_response | Next_error js_error

definition array_length :: "jsval list \<Rightarrow> jsval" where
  "array_length xs = JNum (Fin (real (length xs)))"

definition post_search ::
  "runtime \<Rightarrow> environment \<Rightarrow> PlacesClient \<Rightarrow> http_request \<Rightarrow> handled \<times> event list" where
  "post_search rt env client req =
     (case validateSearchParams (req_body req) of
        Some rejected \<Rightarrow> (Sent rejected, [])
      | None \<Rightarrow>
          (let r = searchPlaces rt env client (JObj (req_body req)) in
           case fst r of
             Inl e \<Rightarrow> (Next_error e, snd r)
           | Inr results \<Rightarrow>
               (Sent \<lparr>status = 200, json = JObj
                  [(''success'', JBool True),
                   (''data'', JArr results),
                   (''count'', array_length results),
                   (''message'', JStr (''Found '' @ toString rt (array_length results)
                      @ '' places for \"''
                      @ toString rt (opt_chain (JObj (req_body req)) ''query'') @ ''\"''))]\<rparr>,
                snd r)))"

definition get_placeId ::
  "runtime \<Rightarrow> environment \<Rightarrow> PlacesClient \<Rightarrow> string \<Rightarrow> handled \<times> event list" where
  "get_placeId rt env client placeId =
     (if \<not> truthy (JStr placeId)
      then (Sent \<lparr>status = 400, json = JObj
              [(''success'', JBool False), (''error'', JStr ''Place ID is required'')]\<rparr>, [])
      else
        (let r = getPlaceDetails rt env client (JStr placeId) in
         case fst r of
           Inl e \<Rightarrow> (Next_error e, snd r)
         | Inr placeDetails \<Rightarrow>
             (Sent \<lparr>status = 200, json = JObj
                [(''success'', JBool True),
                 (''data'', placeDetails),
                 (''message'', JStr (''Details for ''
                    @ toString rt (opt_chain placeDetails ''name'')))]\<rparr>,
              snd r)))"

definition post_nearby ::
  "runtime \<Rightarrow> environment \<Rightarrow> PlacesClient \<Rightarrow> http_request \<Rightarrow> handled \<times> event list" where
  "post_nearby rt env client req =
     (case validateLocationParams (req_body req) of
        Some rejected \<Rightarrow> (Sent rejected, [])
      | None \<Rightarrow>
          (let location = opt_chain (JObj (req_body req)) ''location'';
               type = opt_chain (JObj (req_body req)) ''type'';
               radius = default_radius (opt_chain (JObj (req_body req)) ''radius'');
               r = findNearbyPlaces rt env client location type radius
           in case fst r of
                Inl e \<Rightarrow> (Next_error e, snd r)
              | Inr results \<Rightarrow>
                  (Sent \<lparr>status = 200, json = JObj
                     [(''success'', JBool True),
                      (''data'', JArr results),
                      (''count'', array_length results),
                      (''message'', JStr (''Found '' @ toString rt (array_length results)
                         @ '' '' @ toString rt type @ '' places nearby''))]\<rparr>,
                   snd r)))"

definition commonTypes :: "string list" where
  "commonTypes =
     [''restaurant'', ''gas_station'', ''hospital'', ''pharmacy'', ''bank'', ''atm'',
      ''shopping_mall'', ''grocery_store'', ''hotel'', ''tourist_attraction'', ''park'',
      ''school'', ''university'', ''gym'', ''movie_theater'', ''library'', ''church'',
      ''mosque'', ''synagogue'', ''police'', ''fire_station'', ''post_office'',
      ''car_rental'', ''car_repair'', ''beauty_salon'', ''hair_care'', ''dentist'',
      ''doctor'', ''veterinary_care'']"

definition get_types :: "handled \<times> event list" where
  "get_types =
     (Sent \<lparr>status = 200, json = JObj
        [(''success'', JBool True),
         (''data'', JArr (map JStr commonTypes)),
         (''message'', JStr ''Available place types for search'')]\<rparr>, [])"


subsection \<open>Routing\<close>

text \<open>
  The router tries its routes in the order of registration and runs the first whose
  method and path match; a named segment matches any one non-empty segment, a literal
  one matches without regard to case. No handler of this router calls \<open>next()\<close> without
  an error, so a later route is never tried once one has matched.
\<close>

datatype segment = Literal string | Parameter string

datatype route_handler = H_search | H_placeId | H_nearby | H_types

definition lower_char :: "char \<Rightarrow> char" where
  "lower_char c =
     (case map_of (zip ''ABCDEFGHIJKLMNOPQRSTUVWXYZ'' ''abcdefghijklmnopqrstuvwxyz'') c of
        Some d \<Rightarrow> d
      | None \<Rightarrow> c)"

fun match_path :: "segment list \<Rightarrow> string list \<Rightarrow> (string \<times> string) list option" where
  "match_path [] [] = Some []"
| "match_path (Literal l # ps) (s # ss) =
     (if map lower_char l = map lower_char s then match_path ps ss else None)"
| "match_path (Parameter n # ps) (s # ss) =
     (if s = [] then None
      else (case match_path ps ss of None \<Rightarrow> None | Some bound \<Rightarrow> Some ((n, s) # bound)))"
| "match_path _ _ = None"

definition placesRouter_routes :: "(http_method \<times> segment list \<times> route_handler) list" where
  "placesRouter_routes =
     [(POST, [Literal ''search''], H_search),
      (GET, [Parameter ''placeId''], H_placeId),
      (POST, [Literal ''nearby''], H_nearby),
      (GET, [Literal ''types''], H_types)]"

fun find_route ::
  "(http_method \<times> segment list \<times> route_handler) list \<Rightarrow> http_request \<Rightarrow>
     (route_handler \<times> (string \<times> string) list) option" where
  "find_route [] req = None"
| "find_route ((m, pat, h) # routes) req =
     (if m = req_method req
      then (case match_path pat (req_path req) of
              Some bound \<Rightarrow> Some (h, bound)
            | None \<Rightarrow> find_route routes req)
      else find_route routes req)"

fun run_handler ::
  "runtime \<Rightarrow> environment \<Rightarrow> PlacesClient \<Rightarrow> route_handler \<Rightarrow> (string \<times> string) list \<Rightarrow>
     http_request \<Rightarrow> handled \<times> event list" where
  "run_handler rt env client H_search bound req = post_search rt env client req"
| "run_handler rt env client H_placeId bound req =
     get_placeId rt env client (case map_of bound ''placeId'' of Some v \<Rightarrow> v | None \<Rightarrow> [])"
| "run_handler rt env client H_nearby bound req = post_nearby rt env client req"
| "run_handler rt env client H_types bound req = get_types"

definition placesRouter ::
  "runtime \<Rightarrow> environment \<Rightarrow> PlacesClient \<Rightarrow> http_request \<Rightarrow> handled option \<times> event list" where
  "placesRouter rt env client req =
     (case find_route placesRouter_routes req of
        None \<Rightarrow> (None, [])
      | Some (h, bound) \<Rightarrow>
          (let r = run_handler rt env client h bound req in (Some (fst r), snd r)))"

text \<open>
  The server mounts the router under \<open>/api/places\<close> and the error handler after it.
  \<open>None\<close>: no route of the router took the request.
\<close>

definition api_places ::
  "runtime \<Rightarrow> environment \<Rightarrow> PlacesClient \<Rightarrow> http_request \<Rightarrow>
     http_response option \<times> event list" where
  "api_places rt env client req =
     (let r = placesRouter rt env client req in
      case fst r of
        None \<Rightarrow> (None, snd r)
      | Some (Sent response) \<Rightarrow> (Some response, snd r)
      | Some (Next_error e) \<Rightarrow> (Some (errorHandler env e), snd r))"

section \<open>The tool-protocol shell\<close>

text \<open>
  A tool response: a list of content items \<open>{type, text}\<close>, and the \<open>isError\<close> flag,
  which a successful response does not carry.
\<close>

record content_item =
  item_type :: string
  item_text :: string

record tool_response =
  content :: "content_item list"
  isError :: "bool option"

definition text_response :: "runtime \<Rightarrow> jsval \<Rightarrow> tool_response" where
  "text_response rt payload =
     \<lparr>content = [\<lparr>item_type = ''text'', item_text = JSON_stringify rt payload\<rparr>],
      isError = None\<rparr>"

text \<open>An object literal that copies the named properties of \<open>obj\<close>.\<close>

definition pick :: "runtime \<Rightarrow> string list \<Rightarrow> jsval \<Rightarrow> js_error + jsval" where
  "pick rt keys obj =
     (if nullish obj then Inl (TypeError rt (hd keys))
      else Inr (JObj (map (\<lambda>k. (k, opt_chain obj k)) keys)))"

definition result_keys :: "string list" where
  "result_keys =
     [''id'', ''name'', ''address'', ''location'', ''rating'', ''priceLevel'', ''types'', ''isOpen'']"

text \<open>\<open>v?.slice(0, n)\<close>\<close>

definition opt_slice :: "runtime \<Rightarrow> nat \<Rightarrow> jsval \<Rightarrow> js_error + jsval" where
  "opt_slice rt n v = (if nullish v then Inr JUndefined else slice0 rt n v)"

text \<open>
  Each handler is split in two: the object it passes to \<open>JSON.stringify\<close>, and the
  response that wraps the text.
\<close>

definition handleSearchPlaces_payload ::
  "runtime \<Rightarrow> environment \<Rightarrow> PlacesClient \<Rightarrow> jsval \<Rightarrow> (js_error + jsval) \<times> event list" where
  "handleSearchPlaces_payload rt env client args =
     (case member rt args ''query'' of
        Inl e \<Rightarrow> (Inl e, [])
      | Inr query \<Rightarrow>
          (let searchParams = JObj
                 ([(''query'', query)]
                  @ spread (and_then (opt_chain args ''location'')
                              (JObj [(''location'', opt_chain args ''location'')]))
                  @ spread (and_then (opt_chain args ''radius'')
                              (JObj [(''radius'', opt_chain args ''radius'')]))
                  @ spread (and_then (opt_chain args ''type'')
                              (JObj [(''type'', opt_chain args ''type'')])));
               r = searchPlaces rt env client searchParams
           in case fst r of
                Inl e \<Rightarrow> (Inl e, snd r)
              | Inr results \<Rightarrow>
                  (case map_throwing (pick rt result_keys) results of
                     Inl e \<Rightarrow> (Inl e, snd r)
                   | Inr copies \<Rightarrow>
                       (Inr (JObj
                          [(''success'', JBool True),
                           (''message'', JStr (''Found '' @ toString rt (array_length results)
                              @ '' places for \"'' @ toString rt query @ ''\"'')),
                           (''count'', array_length results),
                           (''results'', JArr copies)]),
                        snd r))))"

definition handleFindNearbyPlaces_payload ::
  "runtime \<Rightarrow> environment \<Rightarrow> PlacesClient \<Rightarrow> jsval \<Rightarrow> (js_error + jsval) \<times> event list" where
  "handleFindNearbyPlaces_payload rt env client args =
     (case member rt args ''radius'' of
        Inl e \<Rightarrow> (Inl e, [])
      | Inr given \<Rightarrow>
          (let radius = or_else given (JNum (Fin 5000));
               r = findNearbyPlaces rt env client (opt_chain args ''location'')
                     (opt_chain args ''type'') radius
           in case fst r of
                Inl e \<Rightarrow> (Inl e, snd r)
              | Inr results \<Rightarrow>
                  (case map_throwing (pick rt result_keys) results of
                     Inl e \<Rightarrow> (Inl e, snd r)
                   | Inr copies \<Rightarrow>
                       (Inr (JObj
                          [(''success'', JBool True),
                           (''message'', JStr (''Found '' @ toString rt (array_length results)
                              @ '' '' @ toString rt (opt_chain args ''type'')
                              @ '' places nearby'')),
                           (''count'', array_length results),
                           (''searchParams'', JObj
                              [(''location'', opt_chain args ''location''),
                               (''type'', opt_chain args ''type''),
                               (''radius'', radius)]),
                           (''results'', JArr copies)]),
                        snd r))))"

definition detail_keys :: "string list" where
  "detail_keys = result_keys @ [''phoneNumber'', ''website'', ''openingHours'']"

definition handleGetPlaceDetails_payload ::
  "runtime \<Rightarrow> environment \<Rightarrow> PlacesClient \<Rightarrow> jsval \<Rightarrow> (js_error + jsval) \<times> event list" where
  "handleGetPlaceDetails_payload rt env client args =
     (case member rt args ''placeId'' of
        Inl e \<Rightarrow> (Inl e, [])
      | Inr placeId \<Rightarrow>
          (let r = getPlaceDetails rt env client placeId in
           case fst r of
             Inl e \<Rightarrow> (Inl e, snd r)
           | Inr placeDetails \<Rightarrow>
               (case pick rt detail_keys placeDetails of
                  Inl e \<Rightarrow> (Inl e, snd r)
                | Inr copied \<Rightarrow>
                    (case opt_slice rt 5 (opt_chain placeDetails ''reviews'') of
                       Inl e \<Rightarrow> (Inl e, snd r)
                     | Inr reviews \<Rightarrow>
                         (case opt_slice rt 3 (opt_chain placeDetails ''photos'') of
                            Inl e \<Rightarrow> (Inl e, snd r)
                          | Inr photos \<Rightarrow>
                              (Inr (JObj
                                 [(''success'', JBool True),
                                  (''message'', JStr (''Details for ''
                                     @ toString rt (opt_chain placeDetails ''name''))),
                                  (''placeDetails'', JObj
                                     (spread copied
                                      @ [(''reviews'', reviews), (''photos'', photos)]))]),
                               snd r))))))"

definition handleGetPlaceTypes_payload :: jsval where
  "handleGetPlaceTypes_payload =
     JObj [(''success'', JBool True),
           (''message'', JStr ''Available place types for AI agent searches''),
           (''count'', array_length (map JStr commonTypes)),
           (''placeTypes'', JArr (map JStr commonTypes)),
           (''usage'', JStr
              ''Use these types with find_nearby_places or as type filter in search_places'')]"

definition wrap_payload ::
  "runtime \<Rightarrow> (js_error + jsval) \<times> event list \<Rightarrow> (js_error + tool_response) \<times> event list" where
  "wrap_payload rt r =
     (case fst r of
        Inl e \<Rightarrow> (Inl e, snd r)
      | Inr payload \<Rightarrow> (Inr (text_response rt payload), snd r))"

text \<open>The \<open>switch\<close> of the dispatcher: what its \<open>try\<close> block returns or throws.\<close>

definition tool_switch ::
  "runtime \<Rightarrow> environment \<Rightarrow> PlacesClient \<Rightarrow> string \<Rightarrow> jsval \<Rightarrow>
     (js_error + tool_response) \<times> event list" where
  "tool_switch rt env client name args =
     (if name = ''search_places''
      then wrap_payload rt (handleSearchPlaces_payload rt env client args)
      else if name = ''find_nearby_places''
      then wrap_payload rt (handleFindNearbyPlaces_payload rt env client args)
      else if name = ''get_place_details''
      then wrap_payload rt (handleGetPlaceDetails_payload rt env client args)
      else if name = ''get_place_types''
      then (Inr (text_response rt handleGetPlaceTypes_payload), [])
      else (Inl (new_Error (''Unknown tool: '' @ name)), []))"

text \<open>
  The handler of \<open>CallToolRequestSchema\<close>. Every value thrown in this model is an
  \<open>Error\<close> instance, so the message of the \<open>catch\<close> block is \<open>error.message\<close>.
\<close>

definition callTool ::
  "runtime \<Rightarrow> environment \<Rightarrow> PlacesClient \<Rightarrow> string \<Rightarrow> jsval \<Rightarrow> tool_response \<times> event list" where
  "callTool rt env client name args =
     (let r = tool_switch rt env client name args in
      case fst r of
        Inr response \<Rightarrow> (response, snd r)
      | Inl error \<Rightarrow>
          (\<lparr>content = [\<lparr>item_type = ''text'',
                         item_text = ''Error executing '' @ name @ '': '' @ err_message error\<rparr>],
            isError = Some True\<rparr>,
           snd r))"


section \<open>Vocabulary of the properties\<close>

text \<open>\<open>Array.isArray\<close>, the elements of an array, the keys of an object.\<close>

definition is_array :: "jsval \<Rightarrow> bool" where
  "is_array v = (case v of JArr _ \<Rightarrow> True | _ \<Rightarrow> False)"

definition elements :: "jsval \<Rightarrow> jsval list" where
  "elements v = (case v of JArr xs \<Rightarrow> xs | _ \<Rightarrow> [])"

definition keys_of :: "jsval \<Rightarrow> string list" where
  "keys_of v = (case v of JObj fs \<Rightarrow> map fst fs | _ \<Rightarrow> [])"

text \<open>
  The shape the provider's types give a place: an object; its resource name, when
  there is one, a string; its reviews and photos, when there are any, arrays of objects.
\<close>

definition absent_or_string :: "jsval \<Rightarrow> bool" where
  "absent_or_string v = (case v of JUndefined \<Rightarrow> True | JNull \<Rightarrow> True | JStr _ \<Rightarrow> True | _ \<Rightarrow> False)"

definition absent_or_entries :: "jsval \<Rightarrow> bool" where
  "absent_or_entries v =
     (case v of
        JUndefined \<Rightarrow> True
      | JNull \<Rightarrow> True
      | JArr xs \<Rightarrow> list_all (\<lambda>x. \<not> nullish x) xs
      | _ \<Rightarrow> False)"

definition absent_or_array :: "jsval \<Rightarrow> bool" where
  "absent_or_array v = (nullish v \<or> is_array v)"

definition provider_place :: "jsval \<Rightarrow> bool" where
  "provider_place place =
     (\<not> nullish place \<and> absent_or_string (opt_chain place ''name''))"

definition provider_details :: "jsval \<Rightarrow> bool" where
  "provider_details place =
     (provider_place place \<and> absent_or_entries (opt_chain place ''reviews'')
      \<and> absent_or_entries (opt_chain place ''photos''))"

text \<open>The radius of the circle in each nearby request that reached the provider.\<close>

fun nearby_radius :: "event \<Rightarrow> jsval option" where
  "nearby_radius (Provider (SearchNearby request fieldMask)) =
     Some (opt_chain (opt_chain (opt_chain request ''locationRestriction'') ''circle'') ''radius'')"
| "nearby_radius _ = None"

definition outbound_radii :: "event list \<Rightarrow> jsval list" where
  "outbound_radii events = List.map_filter nearby_radius events"

text \<open>A coordinate that is a number outside the closed interval.\<close>

definition out_of_range :: "jsval \<Rightarrow> real \<Rightarrow> real \<Rightarrow> bool" where
  "out_of_range v lo hi =
     (case v of JNum x \<Rightarrow> \<not> (num_le (Fin lo) x \<and> num_le x (Fin hi)) | _ \<Rightarrow> False)"

text \<open>The place details each shell delivers for a place id.\<close>

definition http_details :: "runtime \<Rightarrow> environment \<Rightarrow> PlacesClient \<Rightarrow> string \<Rightarrow> jsval" where
  "http_details rt env client placeId =
     (case fst (api_places rt env client
                  \<lparr>req_method = GET, req_path = [placeId], req_body = []\<rparr>) of
        Some response \<Rightarrow> opt_chain (json response) ''data''
      | None \<Rightarrow> JUndefined)"

definition tool_details :: "runtime \<Rightarrow> environment \<Rightarrow> PlacesClient \<Rightarrow> string \<Rightarrow> jsval" where
  "tool_details rt env client placeId =
     (case fst (handleGetPlaceDetails_payload rt env client (JObj [(''placeId'', JStr placeId)])) of
        Inr payload \<Rightarrow> opt_chain payload ''placeDetails''
      | Inl e \<Rightarrow> JUndefined)"

text \<open>
  The normalized results a shell delivers: the \<open>data\<close> of an HTTP response, a field of a
  tool payload; \<open>undefined\<close> where the shell has none to deliver.
\<close>

definition http_data :: "http_response option \<Rightarrow> jsval" where
  "http_data r = (case r of Some response \<Rightarrow> opt_chain (json response) ''data'' | None \<Rightarrow> JUndefined)"

definition tool_field :: "string \<Rightarrow> js_error + jsval \<Rightarrow> jsval" where
  "tool_field k r = (case r of Inr payload \<Rightarrow> opt_chain payload k | Inl e \<Rightarrow> JUndefined)"

subsection \<open>Concrete inputs\<close>

definition sample_runtime :: runtime where
  "sample_runtime =
     \<lparr>JSON_stringify = (\<lambda>v. ''<json>''),
      Number_toString = (\<lambda>n. ''<number>''),
      TypeError_message = (\<lambda>what. ''Cannot read properties of undefined (reading '' @ what @ '')'')\<rparr>"

definition sample_env :: environment where
  "sample_env = \<lparr>GOOGLE_PLACES_API_KEY = Some ''KEY'', NODE_ENV = None\<rparr>"

definition quota_error :: js_error where
  "quota_error =
     \<lparr>err_name = ''Error'', err_message = ''quota exceeded'', err_code = JStr ''OVER_QUERY_LIMIT''\<rparr>"

definition failing_client :: "js_error \<Rightarrow> PlacesClient" where
  "failing_client e = (\<lambda>call. Inl e)"

definition photo_named :: "string \<Rightarrow> jsval" where
  "photo_named n = JObj [(''name'', JStr n)]"

definition place_with_photos :: "string list \<Rightarrow> jsval" where
  "place_with_photos names =
     JObj [(''id'', JStr ''p1''), (''photos'', JArr (map photo_named names))]"

definition fixed_client :: "jsval \<Rightarrow> PlacesClient" where
  "fixed_client response = (\<lambda>call. Inr response)"

text \<open>A search response with one place.\<close>

definition sample_places :: jsval where
  "sample_places = JObj [(''places'', JArr [JObj [(''id'', JStr ''p1'')]])]"

definition review_rated :: "real \<Rightarrow> jsval" where
  "review_rated x = JObj [(''rating'', JNum (Fin x))]"

text \<open>A detail response with 8 reviews and 9 photos.\<close>

definition sample_details :: jsval where
  "sample_details = JObj
     [(''id'', JStr ''p1''),
      (''reviews'', JArr (map review_rated [1, 2, 3, 4, 5, 6, 7, 8])),
      (''photos'', JArr (map photo_named
         [''a'', ''b'', ''c'', ''d'', ''e'', ''f'', ''g'', ''h'', ''i'']))]"


section \<open>Routing and error propagation\<close>


lemma find_types: "find_route placesRouter_routes \<lparr>req_method = GET, req_path = [''types''], req_body = body\<rparr>
  = Some (H_placeId, [(''placeId'', ''types'')])"
  by (simp add: placesRouter_routes_def)

lemma find_search: "find_route placesRouter_routes \<lparr>req_method = POST, req_path = [''search''], req_body = body\<rparr>
  = Some (H_search, [])"
  by (simp add: placesRouter_routes_def lower_char_def)

lemma find_nearby: "find_route placesRouter_routes \<lparr>req_method = POST, req_path = [''nearby''], req_body = body\<rparr>
  = Some (H_nearby, [])"
  by (simp add: placesRouter_routes_def lower_char_def)

lemma find_place: "pid \<noteq> [] \<Longrightarrow> find_route placesRouter_routes \<lparr>req_method = GET, req_path = [pid], req_body = body\<rparr>
  = Some (H_placeId, [(''placeId'', pid)])"
  by (simp add: placesRouter_routes_def)

lemma rethrow_snd: "snd (rethrow_as msg r) = snd r"
  by (cases "fst r") (simp_all add: rethrow_as_def)

lemma rethrow_fst_Inl: "fst r = Inl e \<Longrightarrow> fst (rethrow_as msg r) = Inl (new_Error msg)"
  by (simp add: rethrow_as_def)

lemma rethrow_fst_Inr: "fst r = Inr v \<Longrightarrow> fst (rethrow_as msg r) = Inr v"
  by (simp add: rethrow_as_def)

lemma errorHandler_generic:
  "\<not> str_includes msg ''quota'' \<Longrightarrow> \<not> str_includes msg ''API key'' \<Longrightarrow>
   status (errorHandler env (new_Error msg)) = 500 \<and>
   opt_chain (json (errorHandler env (new_Error msg))) ''code'' = JStr ''INTERNAL_ERROR''"
  by (simp add: errorHandler_def new_Error_def)

lemma search_generic: "status (errorHandler env (new_Error ''Failed to search places'')) = 500 \<and>
   opt_chain (json (errorHandler env (new_Error ''Failed to search places''))) ''code'' = JStr ''INTERNAL_ERROR''"
  by (rule errorHandler_generic) simp_all

lemma details_generic: "status (errorHandler env (new_Error ''Failed to get place details'')) = 500 \<and>
   opt_chain (json (errorHandler env (new_Error ''Failed to get place details''))) ''code'' = JStr ''INTERNAL_ERROR''"
  by (rule errorHandler_generic) simp_all

lemma nearby_generic: "status (errorHandler env (new_Error ''Failed to find nearby places'')) = 500 \<and>
   opt_chain (json (errorHandler env (new_Error ''Failed to find nearby places''))) ''code'' = JStr ''INTERNAL_ERROR''"
  by (rule errorHandler_generic) simp_all

lemma valid_search_not_nullish: "searchPlaces_request rt (JObj body) \<noteq> Inl e"
  by (simp add: searchPlaces_request_def Let_def)

lemma searchPlaces_catch_object:
  "\<not> nullish params \<Longrightarrow>
   searchPlaces_catch rt params r = rethrow_as ''Failed to search places'' r"
  by (cases "fst r") (simp_all add: searchPlaces_catch_def rethrow_as_def member_def)

lemma snd_searchPlaces_catch: "snd (searchPlaces_catch rt params r) = snd r"
  by (cases "fst r") (simp_all add: searchPlaces_catch_def split: sum.splits)

lemma fst_searchPlaces_catch_Inr:
  "fst (searchPlaces_catch rt params r) = Inr v \<longleftrightarrow> fst r = Inr v"
  by (cases "fst r") (simp_all add: searchPlaces_catch_def split: sum.splits)

lemma searchPlaces_nullish_params:
  "nullish params \<Longrightarrow>
   PlacesService_searchPlaces rt client params = (Inl (TypeError rt ''query''), [])"
  by (simp add: PlacesService_searchPlaces_def searchPlaces_catch_def searchPlaces_request_def
      member_def)

lemma searchPlaces_request_object:
  "searchPlaces_request rt params = Inr request \<Longrightarrow> \<not> nullish params"
  by (simp add: searchPlaces_request_def split: if_splits)

lemma search_fails:
  assumes "truthy (env_value (GOOGLE_PLACES_API_KEY env))"
  shows "fst (searchPlaces rt env (failing_client e) (JObj body)) = Inl (new_Error ''Failed to search places'')"
  using assms
  by (simp add: searchPlaces_def placesService_instance_def PlacesService_searchPlaces_def searchPlaces_catch_object
      failing_client_def rethrow_as_def Let_def split: sum.splits)

lemma details_fails:
  assumes "truthy (env_value (GOOGLE_PLACES_API_KEY env))"
  shows "fst (getPlaceDetails rt env (failing_client e) pid) = Inl (new_Error ''Failed to get place details'')"
  using assms
  by (simp add: getPlaceDetails_def placesService_instance_def PlacesService_getPlaceDetails_def
      failing_client_def rethrow_as_def Let_def split: sum.splits)

lemma nearby_fails:
  assumes "truthy (env_value (GOOGLE_PLACES_API_KEY env))"
  shows "fst (findNearbyPlaces rt env (failing_client e) loc ty r) = Inl (new_Error ''Failed to find nearby places'')"
  using assms
  by (simp add: findNearbyPlaces_def placesService_instance_def PlacesService_findNearbyPlaces_def
      failing_client_def rethrow_as_def Let_def split: sum.splits)

lemma snd_getPlaceDetails:
  "snd (getPlaceDetails rt env client pid) =
     Adapter ''getPlaceDetails'' [pid] #
       (if truthy (env_value (GOOGLE_PLACES_API_KEY env))
        then [Provider (GetPlace (JObj [(''name'', JStr (''places/'' @ toString rt pid))])
                details_fieldMask)]
        else [])"
  by (simp add: getPlaceDetails_def placesService_instance_def PlacesService_getPlaceDetails_def
      rethrow_snd Let_def split: sum.splits)

lemma errorHandler_status: "status (errorHandler env e) \<noteq> 200"
  by (simp add: errorHandler_def)

text \<open>
  C1 (as the code has it). A request \<open>GET /api/places/types\<close> is taken by the route
  \<open>/:placeId\<close>, registered before \<open>/types\<close>, with the place id \<open>types\<close>: the adapter
  is invoked for the details of that id, the provider is called whenever the credential
  is set, and the answer is never the static list of place types.
\<close>

theorem types_request_runs_detail_route:
  "find_route placesRouter_routes \<lparr>req_method = GET, req_path = [''types''], req_body = body\<rparr>
     = Some (H_placeId, [(''placeId'', ''types'')])
   \<and> snd (api_places rt env client \<lparr>req_method = GET, req_path = [''types''], req_body = body\<rparr>)
     = Adapter ''getPlaceDetails'' [JStr ''types''] #
         (if truthy (env_value (GOOGLE_PLACES_API_KEY env))
          then [Provider (GetPlace (JObj [(''name'', JStr ''places/types'')]) details_fieldMask)]
          else [])
   \<and> fst (api_places rt env client \<lparr>req_method = GET, req_path = [''types''], req_body = body\<rparr>)
     \<noteq> Some \<lparr>status = 200, json = JObj
                [(''success'', JBool True),
                 (''data'', JArr (map JStr commonTypes)),
                 (''message'', JStr ''Available place types for search'')]\<rparr>"
proof (intro conjI)
  show "find_route placesRouter_routes
          \<lparr>req_method = GET, req_path = [''types''], req_body = body\<rparr>
        = Some (H_placeId, [(''placeId'', ''types'')])"
    by (rule find_types)
  show "snd (api_places rt env client
          \<lparr>req_method = GET, req_path = [''types''], req_body = body\<rparr>)
        = Adapter ''getPlaceDetails'' [JStr ''types''] #
            (if truthy (env_value (GOOGLE_PLACES_API_KEY env))
             then [Provider (GetPlace (JObj [(''name'', JStr ''places/types'')]) details_fieldMask)]
             else [])"
    by (simp add: api_places_def placesRouter_def find_types get_placeId_def
        snd_getPlaceDetails Let_def split: sum.splits option.splits handled.splits)
  show "fst (api_places rt env client
          \<lparr>req_method = GET, req_path = [''types''], req_body = body\<rparr>)
        \<noteq> Some \<lparr>status = 200, json = JObj
                [(''success'', JBool True),
                 (''data'', JArr (map JStr commonTypes)),
                 (''message'', JStr ''Available place types for search'')]\<rparr>"
  proof (cases "fst (getPlaceDetails rt env client (JStr ''types''))")
    case (Inl e)
    have "status (errorHandler env e) \<noteq> 200"
      by (rule errorHandler_status)
    then have "errorHandler env e \<noteq> \<lparr>status = 200, json = JObj
                [(''success'', JBool True),
                 (''data'', JArr (map JStr commonTypes)),
                 (''message'', JStr ''Available place types for search'')]\<rparr>"
      by auto
    with Inl show ?thesis
      by (simp add: api_places_def placesRouter_def find_types get_placeId_def Let_def)
  next
    case (Inr placeDetails)
    then show ?thesis
      by (simp add: api_places_def placesRouter_def find_types get_placeId_def Let_def)
  qed
qed

theorem types_request_runs_detail_route_witness:
  "snd (api_places sample_runtime sample_env (failing_client quota_error)
          \<lparr>req_method = GET, req_path = [''types''], req_body = []\<rparr>)
     = [Adapter ''getPlaceDetails'' [JStr ''types''],
        Provider (GetPlace (JObj [(''name'', JStr ''places/types'')]) details_fieldMask)]"
  using types_request_runs_detail_route
          [of "[]" sample_runtime sample_env "failing_client quota_error"]
  by (simp add: sample_env_def env_value_def)

text \<open>
  C2 (as the code has it). Whatever the provider throws, a quota-exceeded signal
  included, each adapter method re-raises one generic error whose message holds neither
  \<open>quota\<close> nor \<open>API key\<close> and which has no code: the error handler answers 500 with
  code \<open>INTERNAL_ERROR\<close> for the search, the detail and the nearby request alike.
\<close>

theorem provider_failure_answers_500:
  assumes key: "truthy (env_value (GOOGLE_PLACES_API_KEY env))"
    and search: "validateSearchParams body = None"
    and nearby: "validateLocationParams body' = None"
    and pid: "placeId \<noteq> []"
  shows "(\<exists>r. fst (api_places rt env (failing_client e)
                  \<lparr>req_method = POST, req_path = [''search''], req_body = body\<rparr>) = Some r
              \<and> status r = 500 \<and> opt_chain (json r) ''code'' = JStr ''INTERNAL_ERROR'')
       \<and> (\<exists>r. fst (api_places rt env (failing_client e)
                  \<lparr>req_method = GET, req_path = [placeId], req_body = []\<rparr>) = Some r
              \<and> status r = 500 \<and> opt_chain (json r) ''code'' = JStr ''INTERNAL_ERROR'')
       \<and> (\<exists>r. fst (api_places rt env (failing_client e)
                  \<lparr>req_method = POST, req_path = [''nearby''], req_body = body'\<rparr>) = Some r
              \<and> status r = 500 \<and> opt_chain (json r) ''code'' = JStr ''INTERNAL_ERROR'')"
proof (intro conjI)
  show "\<exists>r. fst (api_places rt env (failing_client e)
                  \<lparr>req_method = POST, req_path = [''search''], req_body = body\<rparr>) = Some r
              \<and> status r = 500 \<and> opt_chain (json r) ''code'' = JStr ''INTERNAL_ERROR''"
    using search search_generic [of env]
    by (simp add: api_places_def placesRouter_def find_search post_search_def
        search_fails [OF key] Let_def)
  show "\<exists>r. fst (api_places rt env (failing_client e)
                  \<lparr>req_method = GET, req_path = [placeId], req_body = []\<rparr>) = Some r
              \<and> status r = 500 \<and> opt_chain (json r) ''code'' = JStr ''INTERNAL_ERROR''"
    using pid details_generic [of env]
    by (simp add: api_places_def placesRouter_def find_place get_placeId_def
        details_fails [OF key] Let_def)
  show "\<exists>r. fst (api_places rt env (failing_client e)
                  \<lparr>req_method = POST, req_path = [''nearby''], req_body = body'\<rparr>) = Some r
              \<and> status r = 500 \<and> opt_chain (json r) ''code'' = JStr ''INTERNAL_ERROR''"
    using nearby nearby_generic [of env]
    by (simp add: api_places_def placesRouter_def find_nearby post_nearby_def
        nearby_fails [OF key] Let_def)
qed

theorem provider_failure_answers_500_witness:
  "(\<exists>r. fst (api_places sample_runtime sample_env (failing_client quota_error)
            \<lparr>req_method = POST, req_path = [''search''],
               req_body = [(''query'', JStr ''pizza'')]\<rparr>) = Some r
        \<and> status r = 500 \<and> opt_chain (json r) ''code'' = JStr ''INTERNAL_ERROR'')
   \<and> str_includes (err_message quota_error) ''quota''
   \<and> err_code quota_error = JStr ''OVER_QUERY_LIMIT''"
proof -
  have key: "truthy (env_value (GOOGLE_PLACES_API_KEY sample_env))"
    by (simp add: sample_env_def env_value_def)
  have search: "validateSearchParams [(''query'', JStr ''pizza'')] = None"
    by (simp add: validateSearchParams_def not_nonblank_string_def trim_def is_ws_def)
  have nearby: "validateLocationParams
      [(''location'', JObj [(''lat'', JNum (Fin 1)), (''lng'', JNum (Fin 2))]),
       (''type'', JStr ''cafe'')] = None"
    by (simp add: validateLocationParams_def isValidLocation_def as_number_def
        not_nonblank_string_def trim_def is_ws_def)
  have pid: "''p1'' \<noteq> []"
    by simp
  show ?thesis
    using provider_failure_answers_500 [OF key search nearby pid, of sample_runtime quota_error]
    by (simp add: quota_error_def)
qed

section \<open>Validation before the adapter\<close>

lemma out_of_range_invalid:
  assumes "out_of_range (opt_chain loc ''lat'') (- 90) 90
           \<or> out_of_range (opt_chain loc ''lng'') (- 180) 180"
  shows "\<not> isValidLocation loc"
  using assms
  by (auto simp add: out_of_range_def isValidLocation_def as_number_def split: jsval.splits)

text \<open>
  C8. A request \<open>POST /api/places/nearby\<close> whose location has a latitude outside
  \<open>[-90, 90]\<close> or a longitude outside \<open>[-180, 180]\<close> is answered by the validator with
  status 400 and a message naming the location with its \<open>lat\<close> and \<open>lng\<close>; nothing else
  happens: neither the adapter nor the provider is invoked.
\<close>

theorem nearby_out_of_range_rejected:
  assumes "out_of_range (opt_chain (opt_chain (JObj body) ''location'') ''lat'') (- 90) 90
           \<or> out_of_range (opt_chain (opt_chain (JObj body) ''location'') ''lng'') (- 180) 180"
  shows "api_places rt env client \<lparr>req_method = POST, req_path = [''nearby''], req_body = body\<rparr>
         = (Some \<lparr>status = 400, json = JObj
              [(''success'', JBool False),
               (''error'', JStr ''Valid location with lat and lng properties is required'')]\<rparr>,
            [])"
proof -
  have "\<not> isValidLocation (opt_chain (JObj body) ''location'')"
    using assms by (rule out_of_range_invalid)
  then have "validateLocationParams body
             = Some (bad_request ''Valid location with lat and lng properties is required'')"
    by (simp add: validateLocationParams_def Let_def)
  then show ?thesis
    by (simp add: api_places_def placesRouter_def find_nearby post_nearby_def bad_request_def)
qed

theorem nearby_out_of_range_rejected_witness:
  "api_places sample_runtime sample_env (fixed_client (JObj []))
     \<lparr>req_method = POST, req_path = [''nearby''],
        req_body = [(''location'', JObj [(''lat'', JNum (Fin 200)), (''lng'', JNum (Fin 0))]),
                    (''type'', JStr ''restaurant'')]\<rparr>
   = (Some \<lparr>status = 400, json = JObj
        [(''success'', JBool False),
         (''error'', JStr ''Valid location with lat and lng properties is required'')]\<rparr>,
      [])"
proof -
  have "out_of_range (opt_chain (opt_chain (JObj
          [(''location'', JObj [(''lat'', JNum (Fin 200)), (''lng'', JNum (Fin 0))]),
           (''type'', JStr ''restaurant'')]) ''location'') ''lat'') (- 90) 90"
    by (simp add: out_of_range_def)
  then show ?thesis
    using nearby_out_of_range_rejected by blast
qed

section \<open>Outbound requests\<close>

lemma snd_wrap_payload: "snd (wrap_payload rt r) = snd r"
  by (cases "fst r") (simp_all add: wrap_payload_def)

lemma default_radius_idem: "default_radius (default_radius r) = default_radius r"
  by (simp add: default_radius_def)

lemma snd_findNearbyPlaces:
  "snd (findNearbyPlaces rt env client loc ty r0) =
     Adapter ''findNearbyPlaces'' [loc, ty, r0] #
       (if truthy (env_value (GOOGLE_PLACES_API_KEY env)) \<and> \<not> nullish loc
        then [Provider (SearchNearby
                (JObj [(''includedTypes'', JArr [ty]),
                       (''maxResultCount'', JNum (Fin 10)),
                       (''locationRestriction'', JObj
                          [(''circle'', JObj
                             [(''center'', JObj
                                 [(''latitude'', opt_chain loc ''lat''),
                                  (''longitude'', opt_chain loc ''lng'')]),
                              (''radius'', default_radius r0)])])])
                search_fieldMask)]
        else [])"
  by (simp add: findNearbyPlaces_def placesService_instance_def PlacesService_findNearbyPlaces_def
      findNearbyPlaces_request_def member_def default_radius_idem rethrow_snd Let_def
      split: sum.splits)

lemma outbound_radii_findNearbyPlaces:
  "outbound_radii (snd (findNearbyPlaces rt env client loc ty r0)) =
     (if truthy (env_value (GOOGLE_PLACES_API_KEY env)) \<and> \<not> nullish loc
      then [default_radius r0] else [])"
  by (simp add: snd_findNearbyPlaces outbound_radii_def List.map_filter_simps)

lemma valid_location_truthy:
  "validateLocationParams body = None \<Longrightarrow> \<not> nullish (opt_chain (JObj body) ''location'')"
  by (cases "opt_chain (JObj body) ''location''")
     (simp_all add: validateLocationParams_def Let_def split: if_splits)

lemma snd_post_nearby:
  "snd (post_nearby rt env client req) =
     (if validateLocationParams (req_body req) = None
      then snd (findNearbyPlaces rt env client (opt_chain (JObj (req_body req)) ''location'')
                 (opt_chain (JObj (req_body req)) ''type'')
                 (default_radius (opt_chain (JObj (req_body req)) ''radius'')))
      else [])"
  by (simp add: post_nearby_def Let_def split: option.splits sum.splits)

lemma snd_api_places_nearby:
  "snd (api_places rt env client \<lparr>req_method = POST, req_path = [''nearby''], req_body = body\<rparr>)
   = snd (post_nearby rt env client \<lparr>req_method = POST, req_path = [''nearby''], req_body = body\<rparr>)"
  by (simp add: api_places_def placesRouter_def find_nearby Let_def
      split: option.splits handled.splits)

lemma snd_handleFindNearbyPlaces_payload:
  "snd (handleFindNearbyPlaces_payload rt env client args) =
     (if nullish args then []
      else snd (findNearbyPlaces rt env client (opt_chain args ''location'')
                 (opt_chain args ''type'') (or_else (opt_chain args ''radius'') (JNum (Fin 5000)))))"
  by (simp add: handleFindNearbyPlaces_payload_def member_def Let_def split: sum.splits)

lemma snd_callTool_nearby:
  "snd (callTool rt env client ''find_nearby_places'' args)
   = snd (handleFindNearbyPlaces_payload rt env client args)"
  by (simp add: callTool_def tool_switch_def snd_wrap_payload Let_def split: sum.splits)

lemma outbound_radii_Nil: "outbound_radii [] = []"
  by (simp add: outbound_radii_def List.map_filter_simps)

lemma snd_PlacesService_findNearbyPlaces:
  "outbound_radii (snd (PlacesService_findNearbyPlaces rt client loc ty r0)) =
     (if nullish loc then [] else [default_radius r0])"
  by (simp add: PlacesService_findNearbyPlaces_def findNearbyPlaces_request_def member_def
      rethrow_snd outbound_radii_def List.map_filter_simps Let_def split: sum.splits)

text \<open>
  C7. When the radius is omitted, every nearby request that reaches the provider carries
  the radius 5000 in its location-restriction circle, on each surface: the HTTP route
  (the request reaches the provider when the validator accepts the body and the
  credential is set), the tool handler (when the arguments hold a location), the
  adapter's method and the method of the service class. Otherwise no request goes out.
\<close>

theorem nearby_radius_defaults_to_5000:
  "(opt_chain (JObj body) ''radius'' = JUndefined \<longrightarrow>
      outbound_radii (snd (api_places rt env client
          \<lparr>req_method = POST, req_path = [''nearby''], req_body = body\<rparr>))
      = (if validateLocationParams body = None \<and> truthy (env_value (GOOGLE_PLACES_API_KEY env))
         then [JNum (Fin 5000)] else []))
   \<and> (opt_chain args ''radius'' = JUndefined \<longrightarrow>
      outbound_radii (snd (callTool rt env client ''find_nearby_places'' args))
      = (if \<not> nullish (opt_chain args ''location'') \<and> truthy (env_value (GOOGLE_PLACES_API_KEY env))
         then [JNum (Fin 5000)] else []))
   \<and> outbound_radii (snd (findNearbyPlaces rt env client location type JUndefined))
      = (if \<not> nullish location \<and> truthy (env_value (GOOGLE_PLACES_API_KEY env))
         then [JNum (Fin 5000)] else [])
   \<and> outbound_radii (snd (PlacesService_findNearbyPlaces rt client location type JUndefined))
      = (if \<not> nullish location then [JNum (Fin 5000)] else [])"
proof (intro conjI impI)
  assume omitted: "opt_chain (JObj body) ''radius'' = JUndefined"
  show "outbound_radii (snd (api_places rt env client
          \<lparr>req_method = POST, req_path = [''nearby''], req_body = body\<rparr>))
      = (if validateLocationParams body = None \<and> truthy (env_value (GOOGLE_PLACES_API_KEY env))
         then [JNum (Fin 5000)] else [])"
  proof (cases "validateLocationParams body = None")
    case True
    from valid_location_truthy [OF True] True omitted show ?thesis
      by (simp add: snd_api_places_nearby snd_post_nearby outbound_radii_findNearbyPlaces
          default_radius_def)
  next
    case False
    then obtain rejected where "validateLocationParams body = Some rejected"
      by auto
    then show ?thesis
      by (simp add: snd_api_places_nearby snd_post_nearby outbound_radii_Nil)
  qed
next
  assume omitted: "opt_chain args ''radius'' = JUndefined"
  have "nullish args \<Longrightarrow> nullish (opt_chain args ''location'')"
    by (cases args) simp_all
  with omitted show "outbound_radii (snd (callTool rt env client ''find_nearby_places'' args))
      = (if \<not> nullish (opt_chain args ''location'') \<and> truthy (env_value (GOOGLE_PLACES_API_KEY env))
         then [JNum (Fin 5000)] else [])"
    by (auto simp add: snd_callTool_nearby snd_handleFindNearbyPlaces_payload
        outbound_radii_findNearbyPlaces or_else_def default_radius_def outbound_radii_Nil)
next
  show "outbound_radii (snd (findNearbyPlaces rt env client location type JUndefined))
      = (if \<not> nullish location \<and> truthy (env_value (GOOGLE_PLACES_API_KEY env))
         then [JNum (Fin 5000)] else [])"
    by (auto simp add: outbound_radii_findNearbyPlaces default_radius_def)
next
  show "outbound_radii (snd (PlacesService_findNearbyPlaces rt client location type JUndefined))
      = (if \<not> nullish location then [JNum (Fin 5000)] else [])"
    by (simp add: snd_PlacesService_findNearbyPlaces default_radius_def)
qed

theorem nearby_radius_defaults_to_5000_witness:
  "outbound_radii (snd (api_places sample_runtime sample_env (fixed_client (JObj []))
      \<lparr>req_method = POST, req_path = [''nearby''],
         req_body = [(''location'', JObj [(''lat'', JNum (Fin 1)), (''lng'', JNum (Fin 2))]),
                     (''type'', JStr ''cafe'')]\<rparr>))
     = [JNum (Fin 5000)]
   \<and> outbound_radii (snd (callTool sample_runtime sample_env (fixed_client (JObj []))
        ''find_nearby_places''
        (JObj [(''location'', JObj [(''lat'', JNum (Fin 1)), (''lng'', JNum (Fin 2))]),
               (''type'', JStr ''cafe'')])))
     = [JNum (Fin 5000)]"
  using nearby_radius_defaults_to_5000
    [of "[(''location'', JObj [(''lat'', JNum (Fin 1)), (''lng'', JNum (Fin 2))]),
          (''type'', JStr ''cafe'')]"
        sample_runtime sample_env "fixed_client (JObj [])"
        "JObj [(''location'', JObj [(''lat'', JNum (Fin 1)), (''lng'', JNum (Fin 2))]),
               (''type'', JStr ''cafe'')]"]
  by (simp add: sample_env_def env_value_def validateLocationParams_def isValidLocation_def
      as_number_def not_nonblank_string_def trim_def is_ws_def)

lemma valid_search_type:
  assumes "validateSearchParams body = None" "opt_chain (JObj body) ''type'' \<noteq> JUndefined"
  shows "truthy (opt_chain (JObj body) ''type'')"
proof -
  from assms have "\<not> not_nonblank_string (opt_chain (JObj body) ''type'')"
    by (simp add: validateSearchParams_def Let_def split: if_splits)
  then show ?thesis
    by (cases "opt_chain (JObj body) ''type''")
       (auto simp add: not_nonblank_string_def trim_def)
qed

lemma valid_search_query:
  assumes "validateSearchParams body = None"
  shows "\<exists>q. opt_chain (JObj body) ''query'' = JStr q \<and> trim q \<noteq> []"
proof -
  from assms have "\<not> not_nonblank_string (opt_chain (JObj body) ''query'')"
    by (simp add: validateSearchParams_def Let_def split: if_splits)
  then show ?thesis
    by (cases "opt_chain (JObj body) ''query''")
       (auto simp add: not_nonblank_string_def)
qed

lemma snd_searchPlaces:
  "searchPlaces_request rt params = Inr request \<Longrightarrow>
   snd (searchPlaces rt env client params) =
     Adapter ''searchPlaces'' [params] #
       (if truthy (env_value (GOOGLE_PLACES_API_KEY env))
        then [Provider (SearchText request search_fieldMask)] else [])"
  by (simp add: searchPlaces_def placesService_instance_def PlacesService_searchPlaces_def
      snd_searchPlaces_catch Let_def split: sum.splits)

text \<open>
  C6. For every search body the validator accepts, the adapter builds one request and
  (the credential being set) passes exactly it to the provider's text search. The request
  carries the query, a non-empty string, as \<open>textQuery\<close> and \<open>maxResultCount\<close> 10. With no
  location (omitted, or any falsy value) it has no \<open>locationBias\<close> key at all; with a
  location it has the circle around that location's \<open>lat\<close> and \<open>lng\<close>, with the given
  radius, or 5000 when the radius is omitted. With a type it has that type as
  \<open>includedType\<close>, without one it has no such key. The code that builds the request is
  the same, line for line, in both revisions of the adapter.
\<close>

theorem text_search_request:
  assumes valid: "validateSearchParams body = None"
  shows "\<exists>request q.
      searchPlaces_request rt (JObj body) = Inr request
    \<and> snd (searchPlaces rt env client (JObj body)) =
        Adapter ''searchPlaces'' [JObj body] #
          (if truthy (env_value (GOOGLE_PLACES_API_KEY env))
           then [Provider (SearchText request search_fieldMask)] else [])
    \<and> opt_chain (JObj body) ''query'' = JStr q \<and> q \<noteq> []
    \<and> opt_chain request ''textQuery'' = JStr q
    \<and> opt_chain request ''maxResultCount'' = JNum (Fin 10)
    \<and> (\<not> truthy (opt_chain (JObj body) ''location'') \<longrightarrow>
          ''locationBias'' \<notin> set (keys_of request))
    \<and> (truthy (opt_chain (JObj body) ''location'') \<longrightarrow>
          opt_chain request ''locationBias'' =
            JObj [(''circle'', JObj
              [(''center'', JObj
                  [(''latitude'', opt_chain (opt_chain (JObj body) ''location'') ''lat''),
                   (''longitude'', opt_chain (opt_chain (JObj body) ''location'') ''lng'')]),
               (''radius'', if opt_chain (JObj body) ''radius'' = JUndefined
                            then JNum (Fin 5000) else opt_chain (JObj body) ''radius'')])])
    \<and> (opt_chain (JObj body) ''type'' = JUndefined \<longrightarrow>
          ''includedType'' \<notin> set (keys_of request))
    \<and> (opt_chain (JObj body) ''type'' \<noteq> JUndefined \<longrightarrow>
          opt_chain request ''includedType'' = opt_chain (JObj body) ''type'')"
proof -
  define location where "location = opt_chain (JObj body) ''location''"
  define radius where "radius = opt_chain (JObj body) ''radius''"
  define type where "type = opt_chain (JObj body) ''type''"
  define query where "query = opt_chain (JObj body) ''query''"
  define request where "request = JObj
      ([(''textQuery'', query), (''maxResultCount'', JNum (Fin 10))]
       @ (if truthy location
          then [(''locationBias'', JObj
                  [(''circle'', JObj
                     [(''center'', JObj
                         [(''latitude'', opt_chain location ''lat''),
                          (''longitude'', opt_chain location ''lng'')]),
                      (''radius'', if radius = JUndefined then JNum (Fin 5000) else radius)])])]
          else [])
       @ (if truthy type then [(''includedType'', type)] else []))"
  have built: "searchPlaces_request rt (JObj body) = Inr request"
    unfolding searchPlaces_request_def request_def location_def radius_def type_def query_def
    by (simp only: Let_def nullish.simps if_False)
  from valid_search_query [OF valid] obtain q
    where q: "opt_chain (JObj body) ''query'' = JStr q" and "trim q \<noteq> []"
    by (elim exE conjE)
  then have nonempty: "q \<noteq> []"
    by (auto simp add: trim_def)
  have ty: "type \<noteq> JUndefined \<Longrightarrow> truthy type"
    unfolding type_def using valid by (rule valid_search_type)
  have "opt_chain request ''textQuery'' = JStr q"
    using q by (simp add: request_def query_def)
  moreover have "opt_chain request ''maxResultCount'' = JNum (Fin 10)"
    by (simp add: request_def)
  moreover have "\<not> truthy location \<Longrightarrow> ''locationBias'' \<notin> set (keys_of request)"
    by (cases "truthy type") (simp_all add: request_def keys_of_def)
  moreover have "truthy location \<Longrightarrow> opt_chain request ''locationBias'' =
            JObj [(''circle'', JObj
              [(''center'', JObj
                  [(''latitude'', opt_chain location ''lat''),
                   (''longitude'', opt_chain location ''lng'')]),
               (''radius'', if radius = JUndefined then JNum (Fin 5000) else radius)])]"
    by (simp add: request_def)
  moreover have "type = JUndefined \<Longrightarrow> ''includedType'' \<notin> set (keys_of request)"
    by (cases "truthy location") (simp_all add: request_def keys_of_def)
  moreover have "type \<noteq> JUndefined \<Longrightarrow> opt_chain request ''includedType'' = type"
    using ty by (simp add: request_def)
  ultimately show ?thesis
    using built snd_searchPlaces [OF built, of env client] q nonempty
    unfolding location_def radius_def type_def
    by (intro exI [where x = request] exI [where x = q]) simp
qed


theorem text_search_request_witness:
  "\<exists>request.
      searchPlaces_request sample_runtime (JObj
        [(''query'', JStr ''pizza''),
         (''location'', JObj [(''lat'', JNum (Fin 1)), (''lng'', JNum (Fin 2))]),
         (''type'', JStr ''restaurant'')]) = Inr request
    \<and> opt_chain request ''textQuery'' = JStr ''pizza''
    \<and> opt_chain request ''maxResultCount'' = JNum (Fin 10)
    \<and> opt_chain request ''locationBias'' =
        JObj [(''circle'', JObj
          [(''center'', JObj [(''latitude'', JNum (Fin 1)), (''longitude'', JNum (Fin 2))]),
           (''radius'', JNum (Fin 5000))])]
    \<and> opt_chain request ''includedType'' = JStr ''restaurant''"
proof -
  have valid: "validateSearchParams
      [(''query'', JStr ''pizza''),
       (''location'', JObj [(''lat'', JNum (Fin 1)), (''lng'', JNum (Fin 2))]),
       (''type'', JStr ''restaurant'')] = None"
    by (simp add: validateSearchParams_def isValidLocation_def as_number_def
        not_nonblank_string_def trim_def is_ws_def)
  from text_search_request [OF valid, of sample_runtime sample_env "fixed_client (JObj [])"]
  obtain request q where
    "searchPlaces_request sample_runtime (JObj
        [(''query'', JStr ''pizza''),
         (''location'', JObj [(''lat'', JNum (Fin 1)), (''lng'', JNum (Fin 2))]),
         (''type'', JStr ''restaurant'')]) = Inr request"
    "opt_chain request ''textQuery'' = JStr q"
    "JStr ''pizza'' = JStr q"
    "opt_chain request ''maxResultCount'' = JNum (Fin 10)"
    "opt_chain request ''locationBias'' =
        JObj [(''circle'', JObj
          [(''center'', JObj [(''latitude'', JNum (Fin 1)), (''longitude'', JNum (Fin 2))]),
           (''radius'', JNum (Fin 5000))])]"
    "opt_chain request ''includedType'' = JStr ''restaurant''"
    by (elim exE conjE) simp
  then show ?thesis
    by (intro exI [where x = request]) simp
qed

section \<open>Normalization\<close>

lemma str_split_nonempty: "str_split sep s \<noteq> []"
  by (induction s) (auto split: list.splits)

lemma pop_str_split: "pop (str_split sep s) = JStr (last (str_split sep s))"
  using str_split_nonempty [of sep s] by (simp add: pop_def split: list.splits)

lemma split_pop_absent_or_string:
  "absent_or_string v \<Longrightarrow>
   split_pop rt v = Inr (case v of JStr s \<Rightarrow> JStr (last (str_split CHR ''/'' s)) | _ \<Rightarrow> JUndefined)"
  by (cases v) (simp_all add: absent_or_string_def pop_str_split)

lemma map_throwing_Inr:
  "(\<And>x. x \<in> set xs \<Longrightarrow> f x = Inr (g x)) \<Longrightarrow> map_throwing f xs = Inr (map g xs)"
  by (induction xs) simp_all

lemma map_throwing_length:
  "map_throwing f xs = Inr ys \<Longrightarrow> length ys = length xs"
  by (induction xs arbitrary: ys) (auto split: sum.splits)

lemma map_throwing_all:
  "map_throwing f xs = Inr ys \<Longrightarrow> y \<in> set ys \<Longrightarrow> \<exists>x \<in> set xs. f x = Inr y"
  by (induction xs arbitrary: ys) (auto split: sum.splits)

text \<open>The result object of one place, as a function of the place.\<close>

lemma formatSearchResult_ok:
  assumes "\<not> nullish place"
    and "truthy (opt_chain place ''id'') \<or> absent_or_string (opt_chain place ''name'')"
  shows "formatSearchResult rt place = Inr (JObj
     [(''id'', if truthy (opt_chain place ''id'') then opt_chain place ''id''
               else (case opt_chain place ''name'' of
                       JStr s \<Rightarrow> JStr (last (str_split CHR ''/'' s))
                     | _ \<Rightarrow> JUndefined)),
      (''name'', or_else (opt_chain (opt_chain place ''displayName'') ''text'') (JStr ''Unknown'')),
      (''address'', or_else (opt_chain place ''formattedAddress'') (JStr ''Address not available'')),
      (''location'', JObj
         [(''lat'', or_else (opt_chain (opt_chain place ''location'') ''latitude'') (JNum (Fin 0))),
          (''lng'', or_else (opt_chain (opt_chain place ''location'') ''longitude'') (JNum (Fin 0)))]),
      (''rating'', opt_chain place ''rating''),
      (''priceLevel'', opt_chain place ''priceLevel''),
      (''types'', or_else (opt_chain place ''types'') (JArr [])),
      (''isOpen'', opt_chain (opt_chain place ''currentOpeningHours'') ''openNow'')])"
  using assms
  by (auto simp add: formatSearchResult_def member_def split_pop_absent_or_string)

lemma formatSearchResult_keys:
  assumes "formatSearchResult rt place = Inr r"
  shows "\<exists>a b c d e f g h. r = JObj
     [(''id'', a), (''name'', b), (''address'', c), (''location'', d), (''rating'', e),
      (''priceLevel'', f), (''types'', g), (''isOpen'', h)]"
  using assms
  by (auto simp add: formatSearchResult_def member_def split: sum.splits if_splits)

lemma pick_result:
  assumes "formatSearchResult rt place = Inr r"
  shows "pick rt result_keys r = Inr r"
proof -
  from formatSearchResult_keys [OF assms] obtain a b c d e f g h where "r = JObj
     [(''id'', a), (''name'', b), (''address'', c), (''location'', d), (''rating'', e),
      (''priceLevel'', f), (''types'', g), (''isOpen'', h)]"
    by (elim exE)
  then show ?thesis
    by (simp add: pick_def result_keys_def)
qed

lemma pick_results:
  assumes "formatSearchResults rt v = Inr rs"
  shows "map_throwing (pick rt result_keys) rs = Inr rs"
proof -
  from assms obtain ps where v: "v = JArr ps" and m: "map_throwing (formatSearchResult rt) ps = Inr rs"
    by (cases v) (simp_all add: formatSearchResults_def)
  have "map_throwing (pick rt result_keys) rs = Inr (map (\<lambda>r. r) rs)"
  proof (rule map_throwing_Inr)
    fix r assume "r \<in> set rs"
    with map_throwing_all [OF m] obtain p where "formatSearchResult rt p = Inr r"
      by blast
    then show "pick rt result_keys r = Inr r"
      by (rule pick_result)
  qed
  then show ?thesis by simp
qed

lemma formatSearchResults_singleton:
  "formatSearchResults rt (JArr [place]) =
     (case formatSearchResult rt place of Inl e \<Rightarrow> Inl e | Inr r \<Rightarrow> Inr [r])"
  by (simp add: formatSearchResults_def split: sum.splits)

lemma formatSearchResults_total:
  assumes "list_all provider_place ps"
  shows "\<exists>rs. formatSearchResults rt (JArr ps) = Inr rs \<and> length rs = length ps"
proof -
  have "\<exists>g. \<forall>p \<in> set ps. formatSearchResult rt p = Inr (g p)"
  proof -
    have "\<forall>p \<in> set ps. \<exists>r. formatSearchResult rt p = Inr r"
      using assms formatSearchResult_ok [of _ rt]
      by (auto simp add: list_all_iff provider_place_def)
    then show ?thesis by metis
  qed
  then obtain g where "\<forall>p \<in> set ps. formatSearchResult rt p = Inr (g p)" ..
  then have "map_throwing (formatSearchResult rt) ps = Inr (map g ps)"
    by (intro map_throwing_Inr) simp
  then show ?thesis
    by (simp add: formatSearchResults_def)
qed

text \<open>
  C4 (amended). For every provider place that is not nullish and whose resource name,
  when the id does not already decide, is absent or a string, normalization returns a
  result. Its id is the provider id when that is truthy, otherwise the trailing path
  segment of the resource name, otherwise \<open>undefined\<close>: it is not always non-empty. Its
  name is the display name's text, or \<open>Unknown\<close>; its address the formatted address, or
  \<open>Address not available\<close>; each coordinate the provider's, or 0, so that a place
  without location gets \<open>{lat: 0, lng: 0}\<close>. A list of such places is normalized place
  by place, none lost.
\<close>

theorem normalization_defaults:
  assumes "\<not> nullish place"
    and "truthy (opt_chain place ''id'') \<or> absent_or_string (opt_chain place ''name'')"
  shows "\<exists>r. formatSearchResults rt (JArr [place]) = Inr [r]
     \<and> opt_chain r ''id'' =
         (if truthy (opt_chain place ''id'') then opt_chain place ''id''
          else (case opt_chain place ''name'' of
                  JStr s \<Rightarrow> JStr (last (str_split CHR ''/'' s))
                | _ \<Rightarrow> JUndefined))
     \<and> opt_chain r ''name'' =
         (if truthy (opt_chain (opt_chain place ''displayName'') ''text'')
          then opt_chain (opt_chain place ''displayName'') ''text'' else JStr ''Unknown'')
     \<and> opt_chain r ''address'' =
         (if truthy (opt_chain place ''formattedAddress'')
          then opt_chain place ''formattedAddress'' else JStr ''Address not available'')
     \<and> opt_chain (opt_chain r ''location'') ''lat'' =
         (if truthy (opt_chain (opt_chain place ''location'') ''latitude'')
          then opt_chain (opt_chain place ''location'') ''latitude'' else JNum (Fin 0))
     \<and> opt_chain (opt_chain r ''location'') ''lng'' =
         (if truthy (opt_chain (opt_chain place ''location'') ''longitude'')
          then opt_chain (opt_chain place ''location'') ''longitude'' else JNum (Fin 0))
     \<and> (nullish (opt_chain place ''location'') \<longrightarrow>
          opt_chain r ''location'' = JObj [(''lat'', JNum (Fin 0)), (''lng'', JNum (Fin 0))])
     \<and> (list_all provider_place places \<longrightarrow>
          (\<exists>rs. formatSearchResults rt (JArr places) = Inr rs \<and> length rs = length places))"
proof -
  have absent: "nullish v \<Longrightarrow> opt_chain v k = JUndefined" for v k
    by (cases v) simp_all
  show ?thesis
    using formatSearchResults_total [of places rt]
    by (simp add: formatSearchResults_singleton formatSearchResult_ok [OF assms] or_else_def
        absent)
qed

theorem normalization_defaults_witness:
  "\<exists>r. formatSearchResults sample_runtime (JArr [JObj [(''name'', JStr ''places/abc'')]]) = Inr [r]
     \<and> opt_chain r ''id'' = JStr ''abc''
     \<and> opt_chain r ''name'' = JStr ''Unknown''
     \<and> opt_chain r ''address'' = JStr ''Address not available''
     \<and> opt_chain r ''location'' = JObj [(''lat'', JNum (Fin 0)), (''lng'', JNum (Fin 0))]"
proof -
  have a: "\<not> nullish (JObj [(''name'', JStr ''places/abc'')])"
    by simp
  have b: "truthy (opt_chain (JObj [(''name'', JStr ''places/abc'')]) ''id'')
           \<or> absent_or_string (opt_chain (JObj [(''name'', JStr ''places/abc'')]) ''name'')"
    by (simp add: absent_or_string_def)
  from normalization_defaults [OF a b, of sample_runtime "[]"] obtain r where
    "formatSearchResults sample_runtime (JArr [JObj [(''name'', JStr ''places/abc'')]]) = Inr [r]"
    "opt_chain r ''id'' = JStr ''abc''"
    "opt_chain r ''name'' = JStr ''Unknown''"
    "opt_chain r ''address'' = JStr ''Address not available''"
    "opt_chain r ''location'' = JObj [(''lat'', JNum (Fin 0)), (''lng'', JNum (Fin 0))]"
    by (elim exE conjE) simp
  then show ?thesis
    by (intro exI [where x = r]) simp
qed

text \<open>
  C4 as stated fails: a place with neither id nor resource name is normalized to a
  result whose id is \<open>undefined\<close>, and a resource name ending in \<open>/\<close> gives the empty id.
\<close>

theorem normalized_id_may_be_missing:
  "formatSearchResults sample_runtime (JArr [JObj []]) =
     Inr [JObj [(''id'', JUndefined), (''name'', JStr ''Unknown''),
                (''address'', JStr ''Address not available''),
                (''location'', JObj [(''lat'', JNum (Fin 0)), (''lng'', JNum (Fin 0))]),
                (''rating'', JUndefined), (''priceLevel'', JUndefined),
                (''types'', JArr []), (''isOpen'', JUndefined)]]
   \<and> formatSearchResults sample_runtime (JArr [JObj [(''name'', JStr ''places/'')]]) =
     Inr [JObj [(''id'', JStr []), (''name'', JStr ''Unknown''),
                (''address'', JStr ''Address not available''),
                (''location'', JObj [(''lat'', JNum (Fin 0)), (''lng'', JNum (Fin 0))]),
                (''rating'', JUndefined), (''priceLevel'', JUndefined),
                (''types'', JArr []), (''isOpen'', JUndefined)]]"
  by (simp add: formatSearchResults_def formatSearchResult_def member_def or_else_def pop_def)

subsection \<open>Place details\<close>

lemma elements_simps:
  "elements (JArr xs) = xs" "elements JUndefined = []" "elements JNull = []"
  by (simp_all add: elements_def)

lemma slice_map_entries:
  assumes "absent_or_entries v"
    and cb: "\<And>x. \<not> nullish x \<Longrightarrow> f x = Inr (g x)"
  shows "slice_map rt n f v = Inr (JArr (map g (take n (elements v))))"
proof (cases v)
  case (JArr xs)
  with assms(1) have all: "\<And>x. x \<in> set xs \<Longrightarrow> \<not> nullish x"
    by (simp add: absent_or_entries_def list_all_iff)
  have "map_throwing f (take n xs) = Inr (map g (take n xs))"
  proof (rule map_throwing_Inr)
    fix x assume "x \<in> set (take n xs)"
    then have "x \<in> set xs" by (rule in_set_takeD)
    then show "f x = Inr (g x)" by (intro cb all)
  qed
  with JArr show ?thesis
    by (simp add: slice_map_def or_else_def elements_simps)
qed (use assms(1) in \<open>simp_all add: slice_map_def or_else_def absent_or_entries_def elements_simps\<close>)

lemma slice_map_array:
  assumes "slice_map rt n f v = Inr r"
  shows "\<exists>ys. r = JArr ys \<and> length ys \<le> n"
proof (cases "nullish v")
  case True
  with assms show ?thesis
    by (auto simp add: slice_map_def or_else_def)
next
  case False
  with assms obtain xs ys where "slice0 rt n v = Inr (JArr xs)" "length xs \<le> n"
    and m: "map_throwing f xs = Inr ys" and r: "r = JArr ys"
    by (cases v) (auto simp add: slice_map_def or_else_def split: sum.splits jsval.splits)
  with map_throwing_length [OF m] show ?thesis
    by simp
qed

lemma formatReview_ok:
  "\<not> nullish review \<Longrightarrow> formatReview rt review = Inr (JObj
     [(''rating'', opt_chain review ''rating''),
      (''text'', or_else (opt_chain (opt_chain review ''text'') ''text'') (JStr [])),
      (''author'', or_else (opt_chain (opt_chain review ''authorAttribution'') ''displayName'')
                           (JStr ''Anonymous'')),
      (''time'', opt_chain review ''publishTime'')])"
  by (simp add: formatReview_def member_def)

lemma formatPhoto_ok:
  "\<not> nullish photo \<Longrightarrow> formatPhoto rt env photo =
     Inr (JStr (media_url rt env (or_else (opt_chain photo ''name'') (opt_chain photo ''photoReference''))))"
  by (simp add: formatPhoto_def member_def)

lemma formatPhoto_bare_ok:
  "\<not> nullish photo \<Longrightarrow> formatPhoto_bare rt env photo =
     Inr (JStr (media_url rt env (opt_chain photo ''name'')))"
  by (simp add: formatPhoto_bare_def member_def)

lemma details_with_ok:
  assumes "provider_details place"
    and cb: "\<And>x. \<not> nullish x \<Longrightarrow> photo_cb x = Inr (g x)"
  shows "formatPlaceDetails_with photo_cb rt place = Inr (JObj
     [(''id'', if truthy (opt_chain place ''id'') then opt_chain place ''id''
               else (case opt_chain place ''name'' of
                       JStr s \<Rightarrow> JStr (last (str_split CHR ''/'' s))
                     | _ \<Rightarrow> JUndefined)),
      (''name'', or_else (opt_chain (opt_chain place ''displayName'') ''text'') (JStr ''Unknown'')),
      (''address'', or_else (opt_chain place ''formattedAddress'') (JStr ''Address not available'')),
      (''location'', JObj
         [(''lat'', or_else (opt_chain (opt_chain place ''location'') ''latitude'') (JNum (Fin 0))),
          (''lng'', or_else (opt_chain (opt_chain place ''location'') ''longitude'') (JNum (Fin 0)))]),
      (''rating'', opt_chain place ''rating''),
      (''priceLevel'', opt_chain place ''priceLevel''),
      (''types'', or_else (opt_chain place ''types'') (JArr [])),
      (''isOpen'', opt_chain (opt_chain place ''currentOpeningHours'') ''openNow''),
      (''phoneNumber'', opt_chain place ''nationalPhoneNumber''),
      (''website'', opt_chain place ''websiteUri''),
      (''openingHours'',
         or_else (opt_chain (opt_chain place ''currentOpeningHours'') ''weekdayDescriptions'')
                 (JArr [])),
      (''reviews'', JArr (map (\<lambda>review. JObj
         [(''rating'', opt_chain review ''rating''),
          (''text'', or_else (opt_chain (opt_chain review ''text'') ''text'') (JStr [])),
          (''author'', or_else (opt_chain (opt_chain review ''authorAttribution'') ''displayName'')
                               (JStr ''Anonymous'')),
          (''time'', opt_chain review ''publishTime'')])
         (take 5 (elements (opt_chain place ''reviews''))))),
      (''photos'', JArr (map g (take 5 (elements (opt_chain place ''photos'')))))])"
proof -
  from assms(1) have place: "\<not> nullish place"
    and name: "truthy (opt_chain place ''id'') \<or> absent_or_string (opt_chain place ''name'')"
    and reviews: "absent_or_entries (opt_chain place ''reviews'')"
    and photos: "absent_or_entries (opt_chain place ''photos'')"
    by (simp_all add: provider_details_def provider_place_def)
  show ?thesis
    by (simp add: formatPlaceDetails_with_def formatSearchResults_singleton
        formatSearchResult_ok [OF place name]
        slice_map_entries [OF reviews formatReview_ok]
        slice_map_entries [OF photos cb] spread_def)
qed

lemma details_with_structure:
  assumes "formatPlaceDetails_with photo_cb rt place = Inr d"
  shows "\<exists>a b c l e f g h ph w oh rs ps. d = JObj
     [(''id'', a), (''name'', b), (''address'', c), (''location'', l), (''rating'', e),
      (''priceLevel'', f), (''types'', g), (''isOpen'', h), (''phoneNumber'', ph),
      (''website'', w), (''openingHours'', oh), (''reviews'', JArr rs), (''photos'', JArr ps)]
     \<and> truthy oh \<and> length rs \<le> 5 \<and> length ps \<le> 5
     \<and> oh = or_else (opt_chain (opt_chain place ''currentOpeningHours'') ''weekdayDescriptions'')
                     (JArr [])"
proof -
  from assms obtain r where base: "formatSearchResult rt place = Inr r"
    by (cases "formatSearchResult rt place")
       (simp_all add: formatPlaceDetails_with_def formatSearchResults_singleton)
  from formatSearchResult_keys [OF base] obtain a b c l e f g h where r: "r = JObj
     [(''id'', a), (''name'', b), (''address'', c), (''location'', l), (''rating'', e),
      (''priceLevel'', f), (''types'', g), (''isOpen'', h)]"
    by (elim exE)
  from assms base obtain reviews where
    rv: "slice_map rt 5 (formatReview rt) (opt_chain place ''reviews'') = Inr reviews"
    by (cases "slice_map rt 5 (formatReview rt) (opt_chain place ''reviews'')")
       (simp_all add: formatPlaceDetails_with_def formatSearchResults_singleton)
  from assms base rv obtain photos where
    ph: "slice_map rt 5 photo_cb (opt_chain place ''photos'') = Inr photos"
    by (cases "slice_map rt 5 photo_cb (opt_chain place ''photos'')")
       (simp_all add: formatPlaceDetails_with_def formatSearchResults_singleton)
  from slice_map_array [OF rv] obtain rs where rs: "reviews = JArr rs" "length rs \<le> 5"
    by (elim exE conjE)
  from slice_map_array [OF ph] obtain ps where ps: "photos = JArr ps" "length ps \<le> 5"
    by (elim exE conjE)
  have hours: "truthy (or_else v (JArr []))" for v
    by (simp add: or_else_def)
  from assms base r rv ph rs ps have "d = JObj
     [(''id'', a), (''name'', b), (''address'', c), (''location'', l), (''rating'', e),
      (''priceLevel'', f), (''types'', g), (''isOpen'', h),
      (''phoneNumber'', opt_chain place ''nationalPhoneNumber''),
      (''website'', opt_chain place ''websiteUri''),
      (''openingHours'',
         or_else (opt_chain (opt_chain place ''currentOpeningHours'') ''weekdayDescriptions'')
                 (JArr [])),
      (''reviews'', JArr rs), (''photos'', JArr ps)]"
    by (auto simp add: formatPlaceDetails_with_def formatSearchResults_singleton spread_def)
  with hours rs ps show ?thesis
    by simp
qed

text \<open>
  C5. For every provider detail response (an object; reviews and photos absent or
  arrays of objects), detail normalization returns a result whose reviews are the first
  \<open>min 5 n\<close> of the provider's, in the provider's order, each re-shaped to
  \<open>{rating, text, author, time}\<close> with the text defaulting to the empty string and the
  author to \<open>Anonymous\<close>, and whose photos are the first \<open>min 5 m\<close> of the provider's, in
  order, each turned into the media URL made of the photo's resource name, the size
  bound 400 by 400 and the credential. The field-mask revision falls back to the photo's
  \<open>photoReference\<close> when it has no name; the earlier revision uses the name alone.
\<close>

theorem details_keep_first_five:
  assumes "provider_details place"
  shows "\<exists>d b. formatPlaceDetails rt env place = Inr d
     \<and> formatPlaceDetails_bare rt env place = Inr b
     \<and> opt_chain d ''reviews'' = JArr (map (\<lambda>review. JObj
         [(''rating'', opt_chain review ''rating''),
          (''text'', if truthy (opt_chain (opt_chain review ''text'') ''text'')
                     then opt_chain (opt_chain review ''text'') ''text'' else JStr ''''),
          (''author'', if truthy (opt_chain (opt_chain review ''authorAttribution'') ''displayName'')
                       then opt_chain (opt_chain review ''authorAttribution'') ''displayName''
                       else JStr ''Anonymous''),
          (''time'', opt_chain review ''publishTime'')])
         (take 5 (elements (opt_chain place ''reviews''))))
     \<and> opt_chain b ''reviews'' = opt_chain d ''reviews''
     \<and> opt_chain d ''photos'' = JArr (map (\<lambda>photo. JStr
         (''https://places.googleapis.com/v1/''
          @ toString rt (if truthy (opt_chain photo ''name'') then opt_chain photo ''name''
                         else opt_chain photo ''photoReference'')
          @ ''/media?maxHeightPx=400&maxWidthPx=400&key=''
          @ toString rt (env_value (GOOGLE_PLACES_API_KEY env))))
         (take 5 (elements (opt_chain place ''photos''))))
     \<and> opt_chain b ''photos'' = JArr (map (\<lambda>photo. JStr
         (''https://places.googleapis.com/v1/''
          @ toString rt (opt_chain photo ''name'')
          @ ''/media?maxHeightPx=400&maxWidthPx=400&key=''
          @ toString rt (env_value (GOOGLE_PLACES_API_KEY env))))
         (take 5 (elements (opt_chain place ''photos''))))
     \<and> length (elements (opt_chain d ''reviews''))
         = min 5 (length (elements (opt_chain place ''reviews'')))
     \<and> length (elements (opt_chain d ''photos''))
         = min 5 (length (elements (opt_chain place ''photos'')))
     \<and> length (elements (opt_chain b ''photos''))
         = min 5 (length (elements (opt_chain place ''photos'')))"
  unfolding formatPlaceDetails_def formatPlaceDetails_bare_def
  by (simp add: details_with_ok [OF assms formatPhoto_ok]
      details_with_ok [OF assms formatPhoto_bare_ok]
      elements_simps or_else_def media_url_def min.commute)

theorem details_keep_first_five_witness:
  "\<exists>d. formatPlaceDetails sample_runtime sample_env sample_details = Inr d
     \<and> length (elements (opt_chain d ''reviews'')) = 5
     \<and> length (elements (opt_chain d ''photos'')) = 5
     \<and> opt_chain d ''reviews'' = JArr (map (\<lambda>x. JObj
         [(''rating'', JNum (Fin x)), (''text'', JStr ''''), (''author'', JStr ''Anonymous''),
          (''time'', JUndefined)]) [1, 2, 3, 4, 5])
     \<and> opt_chain d ''photos'' = JArr (map (\<lambda>n. JStr
         (''https://places.googleapis.com/v1/'' @ n
          @ ''/media?maxHeightPx=400&maxWidthPx=400&key=KEY''))
         [''a'', ''b'', ''c'', ''d'', ''e''])"
proof -
  have ok: "provider_details sample_details"
    by (simp add: provider_details_def provider_place_def absent_or_string_def
        absent_or_entries_def sample_details_def review_rated_def photo_named_def)
  from details_keep_first_five [OF ok, of sample_runtime sample_env]
  show ?thesis
    by (elim exE conjE, intro exI conjI)
       (simp_all add: sample_details_def review_rated_def photo_named_def sample_env_def
          env_value_def elements_simps)
qed

lemma is_array_or_else:
  "absent_or_array v \<Longrightarrow> is_array (or_else v (JArr []))"
  by (cases v) (simp_all add: absent_or_array_def is_array_def or_else_def)

lemma is_array_JArr: "is_array (JArr xs)"
  by (simp add: is_array_def)

lemma nullish_or_else: "nullish v \<Longrightarrow> or_else v w = w"
  by (cases v) (simp_all add: or_else_def)

lemma details_with_arrays:
  assumes "formatPlaceDetails_with photo_cb rt place = Inr d"
  shows "is_array (opt_chain d ''reviews'') \<and> is_array (opt_chain d ''photos'')
       \<and> \<not> nullish (opt_chain d ''openingHours'')
       \<and> (absent_or_array (opt_chain (opt_chain place ''currentOpeningHours'') ''weekdayDescriptions'')
            \<longrightarrow> is_array (opt_chain d ''openingHours''))
       \<and> ''openingHours'' \<in> set (keys_of d) \<and> ''reviews'' \<in> set (keys_of d)
       \<and> ''photos'' \<in> set (keys_of d)"
proof -
  from details_with_structure [OF assms] obtain a b c l e f g h ph w oh rs ps where
    d: "d = JObj
     [(''id'', a), (''name'', b), (''address'', c), (''location'', l), (''rating'', e),
      (''priceLevel'', f), (''types'', g), (''isOpen'', h), (''phoneNumber'', ph),
      (''website'', w), (''openingHours'', oh), (''reviews'', JArr rs), (''photos'', JArr ps)]"
    and oh: "truthy oh"
      "oh = or_else (opt_chain (opt_chain place ''currentOpeningHours'') ''weekdayDescriptions'')
                    (JArr [])"
    by (elim exE conjE)
  from oh(1) have "\<not> nullish oh"
    by (cases oh) simp_all
  with d oh(2) show ?thesis
    by (simp add: is_array_JArr keys_of_def is_array_or_else)
qed

text \<open>
  C10. For every provider detail response (an object; reviews and photos absent or
  arrays of objects; the weekday descriptions absent or an array), detail normalization
  returns a result in which \<open>openingHours\<close>, \<open>reviews\<close> and \<open>photos\<close> are present keys
  holding arrays; a response without hours, reviews or photos gets the empty array for
  each. For any input at all on which normalization returns, \<open>reviews\<close> and \<open>photos\<close>
  are arrays and \<open>openingHours\<close> is neither \<open>undefined\<close> nor \<open>null\<close>. Both revisions of
  the adapter.
\<close>

theorem details_arrays_always_defined:
  assumes "provider_details place"
    and "absent_or_array (opt_chain (opt_chain place ''currentOpeningHours'') ''weekdayDescriptions'')"
  shows "(\<exists>d b. formatPlaceDetails rt env place = Inr d
     \<and> formatPlaceDetails_bare rt env place = Inr b
     \<and> is_array (opt_chain d ''openingHours'') \<and> is_array (opt_chain d ''reviews'')
     \<and> is_array (opt_chain d ''photos'')
     \<and> is_array (opt_chain b ''openingHours'') \<and> is_array (opt_chain b ''reviews'')
     \<and> is_array (opt_chain b ''photos'')
     \<and> ''openingHours'' \<in> set (keys_of d) \<and> ''reviews'' \<in> set (keys_of d)
     \<and> ''photos'' \<in> set (keys_of d)
     \<and> ''openingHours'' \<in> set (keys_of b) \<and> ''reviews'' \<in> set (keys_of b)
     \<and> ''photos'' \<in> set (keys_of b)
     \<and> (nullish (opt_chain (opt_chain place ''currentOpeningHours'') ''weekdayDescriptions'')
          \<longrightarrow> opt_chain d ''openingHours'' = JArr [] \<and> opt_chain b ''openingHours'' = JArr [])
     \<and> (nullish (opt_chain place ''reviews'')
          \<longrightarrow> opt_chain d ''reviews'' = JArr [] \<and> opt_chain b ''reviews'' = JArr [])
     \<and> (nullish (opt_chain place ''photos'')
          \<longrightarrow> opt_chain d ''photos'' = JArr [] \<and> opt_chain b ''photos'' = JArr []))
   \<and> (formatPlaceDetails rt env other = Inr r \<longrightarrow>
        is_array (opt_chain r ''reviews'') \<and> is_array (opt_chain r ''photos'')
        \<and> \<not> nullish (opt_chain r ''openingHours''))
   \<and> (formatPlaceDetails_bare rt env other = Inr r \<longrightarrow>
        is_array (opt_chain r ''reviews'') \<and> is_array (opt_chain r ''photos'')
        \<and> \<not> nullish (opt_chain r ''openingHours''))"
proof (intro conjI impI)
  have none: "nullish v \<Longrightarrow> elements v = []" for v
    by (cases v) (simp_all add: elements_simps)
  show "\<exists>d b. formatPlaceDetails rt env place = Inr d
     \<and> formatPlaceDetails_bare rt env place = Inr b
     \<and> is_array (opt_chain d ''openingHours'') \<and> is_array (opt_chain d ''reviews'')
     \<and> is_array (opt_chain d ''photos'')
     \<and> is_array (opt_chain b ''openingHours'') \<and> is_array (opt_chain b ''reviews'')
     \<and> is_array (opt_chain b ''photos'')
     \<and> ''openingHours'' \<in> set (keys_of d) \<and> ''reviews'' \<in> set (keys_of d)
     \<and> ''photos'' \<in> set (keys_of d)
     \<and> ''openingHours'' \<in> set (keys_of b) \<and> ''reviews'' \<in> set (keys_of b)
     \<and> ''photos'' \<in> set (keys_of b)
     \<and> (nullish (opt_chain (opt_chain place ''currentOpeningHours'') ''weekdayDescriptions'')
          \<longrightarrow> opt_chain d ''openingHours'' = JArr [] \<and> opt_chain b ''openingHours'' = JArr [])
     \<and> (nullish (opt_chain place ''reviews'')
          \<longrightarrow> opt_chain d ''reviews'' = JArr [] \<and> opt_chain b ''reviews'' = JArr [])
     \<and> (nullish (opt_chain place ''photos'')
          \<longrightarrow> opt_chain d ''photos'' = JArr [] \<and> opt_chain b ''photos'' = JArr [])"
    unfolding formatPlaceDetails_def formatPlaceDetails_bare_def
    using is_array_or_else [OF assms(2)]
    by (simp add: details_with_ok [OF assms(1) formatPhoto_ok]
        details_with_ok [OF assms(1) formatPhoto_bare_ok]
        is_array_JArr keys_of_def none nullish_or_else)
next
  assume "formatPlaceDetails rt env other = Inr r"
  then have "formatPlaceDetails_with (formatPhoto rt env) rt other = Inr r"
    by (simp add: formatPlaceDetails_def)
  from details_with_arrays [OF this]
  show "is_array (opt_chain r ''reviews'')" "is_array (opt_chain r ''photos'')"
    "\<not> nullish (opt_chain r ''openingHours'')"
    by simp_all
next
  assume "formatPlaceDetails_bare rt env other = Inr r"
  then have "formatPlaceDetails_with (formatPhoto_bare rt env) rt other = Inr r"
    by (simp add: formatPlaceDetails_bare_def)
  from details_with_arrays [OF this]
  show "is_array (opt_chain r ''reviews'')" "is_array (opt_chain r ''photos'')"
    "\<not> nullish (opt_chain r ''openingHours'')"
    by simp_all
qed

theorem details_arrays_always_defined_witness:
  "\<exists>d. formatPlaceDetails sample_runtime sample_env (JObj [(''id'', JStr ''p1'')]) = Inr d
     \<and> opt_chain d ''openingHours'' = JArr []
     \<and> opt_chain d ''reviews'' = JArr []
     \<and> opt_chain d ''photos'' = JArr []
     \<and> ''openingHours'' \<in> set (keys_of d) \<and> ''reviews'' \<in> set (keys_of d)
     \<and> ''photos'' \<in> set (keys_of d)"
proof -
  have ok: "provider_details (JObj [(''id'', JStr ''p1'')])"
    by (simp add: provider_details_def provider_place_def absent_or_string_def
        absent_or_entries_def)
  have hours: "absent_or_array (opt_chain (opt_chain (JObj [(''id'', JStr ''p1'')])
      ''currentOpeningHours'') ''weekdayDescriptions'')"
    by (simp add: absent_or_array_def)
  from details_arrays_always_defined [OF ok hours, of sample_runtime sample_env, THEN conjunct1]
  show ?thesis
    by (elim exE conjE, intro exI conjI) simp_all
qed

section \<open>The two shells compared\<close>

lemma fst_getPlaceDetails_structure:
  assumes "fst (getPlaceDetails rt env client placeId) = Inr pd"
  shows "\<exists>a b c l e f g h ph w oh rs ps. pd = JObj
     [(''id'', a), (''name'', b), (''address'', c), (''location'', l), (''rating'', e),
      (''priceLevel'', f), (''types'', g), (''isOpen'', h), (''phoneNumber'', ph),
      (''website'', w), (''openingHours'', oh), (''reviews'', JArr rs), (''photos'', JArr ps)]
     \<and> length rs \<le> 5 \<and> length ps \<le> 5"
proof -
  from assms obtain place where "formatPlaceDetails rt env place = Inr pd"
    by (auto simp add: getPlaceDetails_def placesService_instance_def
        PlacesService_getPlaceDetails_def rethrow_as_def Let_def split: sum.splits if_splits)
  then have "formatPlaceDetails_with (formatPhoto rt env) rt place = Inr pd"
    by (simp add: formatPlaceDetails_def)
  from details_with_structure [OF this] show ?thesis
    by (elim exE conjE) (intro exI conjI, assumption+)
qed

lemma details_shells:
  assumes pid: "placeId \<noteq> []"
    and ok: "fst (getPlaceDetails rt env client (JStr placeId)) = Inr pd"
  shows "http_details rt env client placeId = pd
       \<and> is_array (opt_chain pd ''photos'')
       \<and> keys_of (tool_details rt env client placeId) = keys_of pd
       \<and> (k \<noteq> ''photos'' \<longrightarrow> opt_chain (tool_details rt env client placeId) k = opt_chain pd k)
       \<and> opt_chain (tool_details rt env client placeId) ''photos''
           = JArr (take 3 (elements (opt_chain pd ''photos'')))"
proof -
  from fst_getPlaceDetails_structure [OF ok] obtain a b c l e f g h ph w oh rs ps where
    pd: "pd = JObj
     [(''id'', a), (''name'', b), (''address'', c), (''location'', l), (''rating'', e),
      (''priceLevel'', f), (''types'', g), (''isOpen'', h), (''phoneNumber'', ph),
      (''website'', w), (''openingHours'', oh), (''reviews'', JArr rs), (''photos'', JArr ps)]"
    and len: "length rs \<le> 5"
    by (elim exE conjE)
  have http: "http_details rt env client placeId = pd"
    using pid ok
    by (simp add: http_details_def api_places_def placesRouter_def find_place get_placeId_def
        Let_def)
  have tool: "tool_details rt env client placeId = JObj
     [(''id'', a), (''name'', b), (''address'', c), (''location'', l), (''rating'', e),
      (''priceLevel'', f), (''types'', g), (''isOpen'', h), (''phoneNumber'', ph),
      (''website'', w), (''openingHours'', oh), (''reviews'', JArr rs),
      (''photos'', JArr (take 3 ps))]"
    using ok len
    by (simp add: tool_details_def handleGetPlaceDetails_payload_def member_def Let_def pd
        pick_def detail_keys_def result_keys_def opt_slice_def spread_def)
  show ?thesis
    unfolding http tool
    by (simp add: pd keys_of_def is_array_JArr elements_simps)
qed

lemma details_shells_fail:
  assumes pid: "placeId \<noteq> []"
    and bad: "fst (getPlaceDetails rt env client (JStr placeId)) = Inl e"
  shows "fst (api_places rt env client
                \<lparr>req_method = GET, req_path = [placeId], req_body = []\<rparr>)
           = Some (errorHandler env e)
       \<and> fst (handleGetPlaceDetails_payload rt env client (JObj [(''placeId'', JStr placeId)]))
           = Inl e"
  using pid bad
  by (simp add: api_places_def placesRouter_def find_place get_placeId_def
      handleGetPlaceDetails_payload_def member_def Let_def)

lemma fst_searchPlaces_cong:
  assumes "searchPlaces_request rt p = searchPlaces_request rt p'"
    and "\<not> nullish p" "\<not> nullish p'"
  shows "fst (searchPlaces rt env client p) = fst (searchPlaces rt env client p')"
  using assms
  by (simp add: searchPlaces_def placesService_instance_def PlacesService_searchPlaces_def
      searchPlaces_catch_object rethrow_as_def Let_def split: sum.splits)

lemma searchPlaces_results:
  assumes "fst (searchPlaces rt env client p) = Inr rs"
  shows "\<exists>v. formatSearchResults rt v = Inr rs"
  using assms
  by (auto simp add: searchPlaces_def placesService_instance_def PlacesService_searchPlaces_def
      fst_searchPlaces_catch_Inr Let_def split: sum.splits if_splits)

lemma findNearbyPlaces_results:
  assumes "fst (findNearbyPlaces rt env client l t r) = Inr rs"
  shows "\<exists>v. formatSearchResults rt v = Inr rs"
  using assms
  by (auto simp add: findNearbyPlaces_def placesService_instance_def
      PlacesService_findNearbyPlaces_def rethrow_as_def Let_def split: sum.splits if_splits)

lemma good_radius_truthy:
  assumes "\<not> bad_radius r" "r \<noteq> JNum NaN"
  shows "truthy r"
proof (cases r)
  case (JNum n)
  with assms show ?thesis
    by (cases n) (auto simp add: bad_radius_def as_number_def)
qed (use assms in \<open>simp_all add: bad_radius_def\<close>)

lemma valid_search_radius:
  assumes "validateSearchParams body = None" "opt_chain (JObj body) ''radius'' \<noteq> JNum NaN"
  shows "opt_chain (JObj body) ''radius'' = JUndefined \<or> truthy (opt_chain (JObj body) ''radius'')"
proof -
  from assms(1) have "opt_chain (JObj body) ''radius'' = JUndefined
      \<or> \<not> bad_radius (opt_chain (JObj body) ''radius'')"
    by (simp add: validateSearchParams_def Let_def split: if_splits)
  with good_radius_truthy [OF _ assms(2)] show ?thesis
    by auto
qed

lemma valid_nearby_radius:
  assumes "validateLocationParams body = None" "opt_chain (JObj body) ''radius'' \<noteq> JNum NaN"
  shows "opt_chain (JObj body) ''radius'' = JUndefined \<or> truthy (opt_chain (JObj body) ''radius'')"
proof -
  from assms(1) have "opt_chain (JObj body) ''radius'' = JUndefined
      \<or> \<not> bad_radius (opt_chain (JObj body) ''radius'')"
    by (simp add: validateLocationParams_def Let_def split: if_splits)
  with good_radius_truthy [OF _ assms(2)] show ?thesis
    by auto
qed

lemma tool_searchParams_request:
  assumes valid: "validateSearchParams body = None"
    and nan: "opt_chain (JObj body) ''radius'' \<noteq> JNum NaN"
  shows "searchPlaces_request rt (JObj
           ([(''query'', opt_chain (JObj body) ''query'')]
            @ spread (and_then (opt_chain (JObj body) ''location'')
                        (JObj [(''location'', opt_chain (JObj body) ''location'')]))
            @ spread (and_then (opt_chain (JObj body) ''radius'')
                        (JObj [(''radius'', opt_chain (JObj body) ''radius'')]))
            @ spread (and_then (opt_chain (JObj body) ''type'')
                        (JObj [(''type'', opt_chain (JObj body) ''type'')]))))
         = searchPlaces_request rt (JObj body)"
proof -
  define location where "location = opt_chain (JObj body) ''location''"
  define radius where "radius = opt_chain (JObj body) ''radius''"
  define type where "type = opt_chain (JObj body) ''type''"
  define query where "query = opt_chain (JObj body) ''query''"
  have r: "radius = JUndefined \<or> truthy radius"
    unfolding radius_def using valid nan by (rule valid_search_radius)
  have t: "type = JUndefined \<or> truthy type"
    using valid_search_type [OF valid] unfolding type_def by auto
  have falsy: "\<not> truthy v \<Longrightarrow> spread v = []" for v
    by (cases v) (simp_all add: spread_def)
  have object: "spread (JObj fs) = fs" for fs
    by (simp add: spread_def)
  have rhs: "searchPlaces_request rt (JObj body) = Inr (JObj
      ([(''textQuery'', query), (''maxResultCount'', JNum (Fin 10))]
       @ (if truthy location
          then [(''locationBias'', JObj
                  [(''circle'', JObj
                     [(''center'', JObj
                         [(''latitude'', opt_chain location ''lat''),
                          (''longitude'', opt_chain location ''lng'')]),
                      (''radius'', if radius = JUndefined then JNum (Fin 5000) else radius)])])]
          else [])
       @ (if truthy type then [(''includedType'', type)] else [])))"
    unfolding searchPlaces_request_def location_def radius_def type_def query_def
    by (simp only: Let_def nullish.simps if_False)
  have lhs: "searchPlaces_request rt (JObj
           ([(''query'', query)]
            @ spread (and_then location (JObj [(''location'', location)]))
            @ spread (and_then radius (JObj [(''radius'', radius)]))
            @ spread (and_then type (JObj [(''type'', type)])))) = Inr (JObj
      ([(''textQuery'', query), (''maxResultCount'', JNum (Fin 10))]
       @ (if truthy location
          then [(''locationBias'', JObj
                  [(''circle'', JObj
                     [(''center'', JObj
                         [(''latitude'', opt_chain location ''lat''),
                          (''longitude'', opt_chain location ''lng'')]),
                      (''radius'', if radius = JUndefined then JNum (Fin 5000) else radius)])])]
          else [])
       @ (if truthy type then [(''includedType'', type)] else [])))"
    using r t
    by (cases "truthy location"; cases "truthy radius"; cases "truthy type")
       (auto simp add: searchPlaces_request_def and_then_def object falsy Let_def)
  show ?thesis
    using lhs rhs unfolding location_def radius_def type_def query_def by simp
qed

lemma handleSearchPlaces_payload_Inr:
  assumes "\<not> nullish args"
    and "fst (searchPlaces rt env client (JObj
           ([(''query'', opt_chain args ''query'')]
            @ spread (and_then (opt_chain args ''location'')
                        (JObj [(''location'', opt_chain args ''location'')]))
            @ spread (and_then (opt_chain args ''radius'')
                        (JObj [(''radius'', opt_chain args ''radius'')]))
            @ spread (and_then (opt_chain args ''type'')
                        (JObj [(''type'', opt_chain args ''type'')]))))) = Inr rs"
  shows "fst (handleSearchPlaces_payload rt env client args) = Inr (JObj
           [(''success'', JBool True),
            (''message'', JStr (''Found '' @ toString rt (array_length rs)
               @ '' places for \"'' @ toString rt (opt_chain args ''query'') @ ''\"'')),
            (''count'', array_length rs),
            (''results'', JArr rs)])"
proof -
  from searchPlaces_results [OF assms(2)] obtain v where "formatSearchResults rt v = Inr rs" ..
  then have "map_throwing (pick rt result_keys) rs = Inr rs"
    by (rule pick_results)
  with assms show ?thesis
    by (simp add: handleSearchPlaces_payload_def member_def Let_def)
qed

lemma handleSearchPlaces_payload_Inl:
  assumes "\<not> nullish args"
    and "fst (searchPlaces rt env client (JObj
           ([(''query'', opt_chain args ''query'')]
            @ spread (and_then (opt_chain args ''location'')
                        (JObj [(''location'', opt_chain args ''location'')]))
            @ spread (and_then (opt_chain args ''radius'')
                        (JObj [(''radius'', opt_chain args ''radius'')]))
            @ spread (and_then (opt_chain args ''type'')
                        (JObj [(''type'', opt_chain args ''type'')]))))) = Inl e"
  shows "fst (handleSearchPlaces_payload rt env client args) = Inl e"
  using assms
  by (simp add: handleSearchPlaces_payload_def member_def Let_def)

lemma search_shells:
  assumes valid: "validateSearchParams body = None"
    and nan: "opt_chain (JObj body) ''radius'' \<noteq> JNum NaN"
  shows "(fst (searchPlaces rt env client (JObj body)) = Inr rs \<longrightarrow>
            fst (api_places rt env client
                   \<lparr>req_method = POST, req_path = [''search''], req_body = body\<rparr>)
              = Some \<lparr>status = 200, json = JObj
                  [(''success'', JBool True),
                   (''data'', JArr rs),
                   (''count'', array_length rs),
                   (''message'', JStr (''Found '' @ toString rt (array_length rs)
                      @ '' places for \"''
                      @ toString rt (opt_chain (JObj body) ''query'') @ ''\"''))]\<rparr>
          \<and> fst (handleSearchPlaces_payload rt env client (JObj body))
              = Inr (JObj
                  [(''success'', JBool True),
                   (''message'', JStr (''Found '' @ toString rt (array_length rs)
                      @ '' places for \"''
                      @ toString rt (opt_chain (JObj body) ''query'') @ ''\"'')),
                   (''count'', array_length rs),
                   (''results'', JArr rs)]))
       \<and> (fst (searchPlaces rt env client (JObj body)) = Inl e \<longrightarrow>
            fst (api_places rt env client
                   \<lparr>req_method = POST, req_path = [''search''], req_body = body\<rparr>)
              = Some (errorHandler env e)
          \<and> fst (handleSearchPlaces_payload rt env client (JObj body)) = Inl e)"
proof -
  have same: "fst (searchPlaces rt env client (JObj
           ([(''query'', opt_chain (JObj body) ''query'')]
            @ spread (and_then (opt_chain (JObj body) ''location'')
                        (JObj [(''location'', opt_chain (JObj body) ''location'')]))
            @ spread (and_then (opt_chain (JObj body) ''radius'')
                        (JObj [(''radius'', opt_chain (JObj body) ''radius'')]))
            @ spread (and_then (opt_chain (JObj body) ''type'')
                        (JObj [(''type'', opt_chain (JObj body) ''type'')])))))
        = fst (searchPlaces rt env client (JObj body))"
    by (rule fst_searchPlaces_cong) (simp_all only: tool_searchParams_request [OF valid nan] nullish.simps not_False_eq_True)
  have obj: "\<not> nullish (JObj body)"
    by simp
  show ?thesis
  proof (intro conjI impI)
    assume ok: "fst (searchPlaces rt env client (JObj body)) = Inr rs"
    with valid show "fst (api_places rt env client
                   \<lparr>req_method = POST, req_path = [''search''], req_body = body\<rparr>)
              = Some \<lparr>status = 200, json = JObj
                  [(''success'', JBool True),
                   (''data'', JArr rs),
                   (''count'', array_length rs),
                   (''message'', JStr (''Found '' @ toString rt (array_length rs)
                      @ '' places for \"''
                      @ toString rt (opt_chain (JObj body) ''query'') @ ''\"''))]\<rparr>"
      by (simp add: api_places_def placesRouter_def find_search post_search_def Let_def)
    from ok have "fst (searchPlaces rt env client (JObj
           ([(''query'', opt_chain (JObj body) ''query'')]
            @ spread (and_then (opt_chain (JObj body) ''location'')
                        (JObj [(''location'', opt_chain (JObj body) ''location'')]))
            @ spread (and_then (opt_chain (JObj body) ''radius'')
                        (JObj [(''radius'', opt_chain (JObj body) ''radius'')]))
            @ spread (and_then (opt_chain (JObj body) ''type'')
                        (JObj [(''type'', opt_chain (JObj body) ''type'')]))))) = Inr rs"
      by (simp only: same)
    from handleSearchPlaces_payload_Inr [OF obj this]
    show "fst (handleSearchPlaces_payload rt env client (JObj body))
              = Inr (JObj
                  [(''success'', JBool True),
                   (''message'', JStr (''Found '' @ toString rt (array_length rs)
                      @ '' places for \"''
                      @ toString rt (opt_chain (JObj body) ''query'') @ ''\"'')),
                   (''count'', array_length rs),
                   (''results'', JArr rs)])" .
  next
    assume bad: "fst (searchPlaces rt env client (JObj body)) = Inl e"
    with valid show "fst (api_places rt env client
                   \<lparr>req_method = POST, req_path = [''search''], req_body = body\<rparr>)
              = Some (errorHandler env e)"
      by (simp add: api_places_def placesRouter_def find_search post_search_def Let_def)
    from bad have "fst (searchPlaces rt env client (JObj
           ([(''query'', opt_chain (JObj body) ''query'')]
            @ spread (and_then (opt_chain (JObj body) ''location'')
                        (JObj [(''location'', opt_chain (JObj body) ''location'')]))
            @ spread (and_then (opt_chain (JObj body) ''radius'')
                        (JObj [(''radius'', opt_chain (JObj body) ''radius'')]))
            @ spread (and_then (opt_chain (JObj body) ''type'')
                        (JObj [(''type'', opt_chain (JObj body) ''type'')]))))) = Inl e"
      by (simp only: same)
    from handleSearchPlaces_payload_Inl [OF obj this]
    show "fst (handleSearchPlaces_payload rt env client (JObj body)) = Inl e" .
  qed
qed

lemma nearby_shells:
  assumes valid: "validateLocationParams body = None"
    and nan: "opt_chain (JObj body) ''radius'' \<noteq> JNum NaN"
  shows "snd (handleFindNearbyPlaces_payload rt env client (JObj body))
           = snd (api_places rt env client
                   \<lparr>req_method = POST, req_path = [''nearby''], req_body = body\<rparr>)
       \<and> (fst (findNearbyPlaces rt env client (opt_chain (JObj body) ''location'')
                 (opt_chain (JObj body) ''type'')
                 (default_radius (opt_chain (JObj body) ''radius''))) = Inr rs \<longrightarrow>
            fst (api_places rt env client
                   \<lparr>req_method = POST, req_path = [''nearby''], req_body = body\<rparr>)
              = Some \<lparr>status = 200, json = JObj
                  [(''success'', JBool True),
                   (''data'', JArr rs),
                   (''count'', array_length rs),
                   (''message'', JStr (''Found '' @ toString rt (array_length rs)
                      @ '' '' @ toString rt (opt_chain (JObj body) ''type'')
                      @ '' places nearby''))]\<rparr>
          \<and> fst (handleFindNearbyPlaces_payload rt env client (JObj body))
              = Inr (JObj
                  [(''success'', JBool True),
                   (''message'', JStr (''Found '' @ toString rt (array_length rs)
                      @ '' '' @ toString rt (opt_chain (JObj body) ''type'')
                      @ '' places nearby'')),
                   (''count'', array_length rs),
                   (''searchParams'', JObj
                      [(''location'', opt_chain (JObj body) ''location''),
                       (''type'', opt_chain (JObj body) ''type''),
                       (''radius'', default_radius (opt_chain (JObj body) ''radius''))]),
                   (''results'', JArr rs)]))
       \<and> (fst (findNearbyPlaces rt env client (opt_chain (JObj body) ''location'')
                 (opt_chain (JObj body) ''type'')
                 (default_radius (opt_chain (JObj body) ''radius''))) = Inl e \<longrightarrow>
            fst (api_places rt env client
                   \<lparr>req_method = POST, req_path = [''nearby''], req_body = body\<rparr>)
              = Some (errorHandler env e)
          \<and> fst (handleFindNearbyPlaces_payload rt env client (JObj body)) = Inl e)"
proof -
  have radius: "or_else (opt_chain (JObj body) ''radius'') (JNum (Fin 5000))
                = default_radius (opt_chain (JObj body) ''radius'')"
    using valid_nearby_radius [OF valid nan]
    by (auto simp add: or_else_def default_radius_def)
  have obj: "member rt (JObj body) ''radius'' = Inr (opt_chain (JObj body) ''radius'')"
    by (simp add: member_def)
  show ?thesis
  proof (intro conjI impI)
    show "snd (handleFindNearbyPlaces_payload rt env client (JObj body))
           = snd (api_places rt env client
                   \<lparr>req_method = POST, req_path = [''nearby''], req_body = body\<rparr>)"
      using valid
      by (simp add: snd_handleFindNearbyPlaces_payload snd_api_places_nearby snd_post_nearby
          radius del: opt_chain.simps)
  next
    assume ok: "fst (findNearbyPlaces rt env client (opt_chain (JObj body) ''location'')
                 (opt_chain (JObj body) ''type'')
                 (default_radius (opt_chain (JObj body) ''radius''))) = Inr rs"
    with valid show "fst (api_places rt env client
                   \<lparr>req_method = POST, req_path = [''nearby''], req_body = body\<rparr>)
              = Some \<lparr>status = 200, json = JObj
                  [(''success'', JBool True),
                   (''data'', JArr rs),
                   (''count'', array_length rs),
                   (''message'', JStr (''Found '' @ toString rt (array_length rs)
                      @ '' '' @ toString rt (opt_chain (JObj body) ''type'')
                      @ '' places nearby''))]\<rparr>"
      by (simp add: api_places_def placesRouter_def find_nearby post_nearby_def Let_def
          del: opt_chain.simps)
    from findNearbyPlaces_results [OF ok] obtain v where "formatSearchResults rt v = Inr rs" ..
    then have "map_throwing (pick rt result_keys) rs = Inr rs"
      by (rule pick_results)
    with ok show "fst (handleFindNearbyPlaces_payload rt env client (JObj body))
              = Inr (JObj
                  [(''success'', JBool True),
                   (''message'', JStr (''Found '' @ toString rt (array_length rs)
                      @ '' '' @ toString rt (opt_chain (JObj body) ''type'')
                      @ '' places nearby'')),
                   (''count'', array_length rs),
                   (''searchParams'', JObj
                      [(''location'', opt_chain (JObj body) ''location''),
                       (''type'', opt_chain (JObj body) ''type''),
                       (''radius'', default_radius (opt_chain (JObj body) ''radius''))]),
                   (''results'', JArr rs)])"
      by (simp add: handleFindNearbyPlaces_payload_def obj radius Let_def del: opt_chain.simps)
  next
    assume bad: "fst (findNearbyPlaces rt env client (opt_chain (JObj body) ''location'')
                 (opt_chain (JObj body) ''type'')
                 (default_radius (opt_chain (JObj body) ''radius''))) = Inl e"
    with valid show "fst (api_places rt env client
                   \<lparr>req_method = POST, req_path = [''nearby''], req_body = body\<rparr>)
              = Some (errorHandler env e)"
      by (simp add: api_places_def placesRouter_def find_nearby post_nearby_def Let_def
          del: opt_chain.simps)
    from bad show "fst (handleFindNearbyPlaces_payload rt env client (JObj body)) = Inl e"
      by (simp add: handleFindNearbyPlaces_payload_def obj radius Let_def del: opt_chain.simps)
  qed
qed

lemma errorHandler_no_data: "opt_chain (json (errorHandler env e)) ''data'' = JUndefined"
  by (simp add: errorHandler_def)

lemma http_details_data:
  "http_details rt env client placeId
   = http_data (fst (api_places rt env client
                      \<lparr>req_method = GET, req_path = [placeId], req_body = []\<rparr>))"
  by (simp add: http_details_def http_data_def)

lemma tool_details_field:
  "tool_details rt env client placeId
   = tool_field ''placeDetails''
       (fst (handleGetPlaceDetails_payload rt env client (JObj [(''placeId'', JStr placeId)])))"
  by (simp add: tool_details_def tool_field_def)

text \<open>
  C3 (amended). For every body the HTTP validator accepts (a parsed JSON body, whose
  radius cannot be NaN), the search and the nearby operation deliver the same results
  through both shells: the \<open>results\<close> of the tool payload are the \<open>data\<close> of the HTTP
  response, and one shell fails exactly when the other does. For the same place id and
  the same provider response, the place details of the tool payload have the keys of the
  HTTP \<open>data\<close>, in the same order, with the same value under every key but \<open>photos\<close>
  (the reviews, and their number, included); the photos of the tool payload are the
  first three of the photos of the HTTP response.
\<close>

theorem shells_agree_up_to_photos:
  "(validateSearchParams body = None \<and> opt_chain (JObj body) ''radius'' \<noteq> JNum NaN \<longrightarrow>
      tool_field ''results'' (fst (handleSearchPlaces_payload rt env client (JObj body)))
      = http_data (fst (api_places rt env client
                         \<lparr>req_method = POST, req_path = [''search''], req_body = body\<rparr>)))
   \<and> (validateLocationParams body = None \<and> opt_chain (JObj body) ''radius'' \<noteq> JNum NaN \<longrightarrow>
      tool_field ''results'' (fst (handleFindNearbyPlaces_payload rt env client (JObj body)))
      = http_data (fst (api_places rt env client
                         \<lparr>req_method = POST, req_path = [''nearby''], req_body = body\<rparr>)))
   \<and> (placeId \<noteq> [] \<longrightarrow>
      keys_of (tool_details rt env client placeId) = keys_of (http_details rt env client placeId)
      \<and> (\<forall>k. k \<noteq> ''photos'' \<longrightarrow>
            opt_chain (tool_details rt env client placeId) k
            = opt_chain (http_details rt env client placeId) k)
      \<and> is_array (opt_chain (tool_details rt env client placeId) ''photos'')
        = is_array (opt_chain (http_details rt env client placeId) ''photos'')
      \<and> elements (opt_chain (tool_details rt env client placeId) ''photos'')
        = take 3 (elements (opt_chain (http_details rt env client placeId) ''photos'')))"
proof (intro conjI impI allI)
  assume valid: "validateSearchParams body = None \<and> opt_chain (JObj body) ''radius'' \<noteq> JNum NaN"
  show "tool_field ''results'' (fst (handleSearchPlaces_payload rt env client (JObj body)))
      = http_data (fst (api_places rt env client
                         \<lparr>req_method = POST, req_path = [''search''], req_body = body\<rparr>))"
  proof (cases "fst (searchPlaces rt env client (JObj body))")
    case (Inl e)
    with search_shells [of body rt env client _ e] valid show ?thesis
      by (simp add: tool_field_def http_data_def errorHandler_no_data del: opt_chain.simps)
  next
    case (Inr rs)
    with search_shells [of body rt env client rs] valid show ?thesis
      by (simp add: tool_field_def http_data_def)
  qed
next
  assume valid: "validateLocationParams body = None \<and> opt_chain (JObj body) ''radius'' \<noteq> JNum NaN"
  show "tool_field ''results'' (fst (handleFindNearbyPlaces_payload rt env client (JObj body)))
      = http_data (fst (api_places rt env client
                         \<lparr>req_method = POST, req_path = [''nearby''], req_body = body\<rparr>))"
  proof (cases "fst (findNearbyPlaces rt env client (opt_chain (JObj body) ''location'')
                 (opt_chain (JObj body) ''type'')
                 (default_radius (opt_chain (JObj body) ''radius'')))")
    case (Inl e)
    with nearby_shells [of body rt env client _ e] valid show ?thesis
      by (simp add: tool_field_def http_data_def errorHandler_no_data del: opt_chain.simps)
  next
    case (Inr rs)
    with nearby_shells [of body rt env client rs] valid
    have "fst (api_places rt env client
                \<lparr>req_method = POST, req_path = [''nearby''], req_body = body\<rparr>)
              = Some \<lparr>status = 200, json = JObj
                  [(''success'', JBool True),
                   (''data'', JArr rs),
                   (''count'', array_length rs),
                   (''message'', JStr (''Found '' @ toString rt (array_length rs)
                      @ '' '' @ toString rt (opt_chain (JObj body) ''type'')
                      @ '' places nearby''))]\<rparr>"
      and "fst (handleFindNearbyPlaces_payload rt env client (JObj body))
              = Inr (JObj
                  [(''success'', JBool True),
                   (''message'', JStr (''Found '' @ toString rt (array_length rs)
                      @ '' '' @ toString rt (opt_chain (JObj body) ''type'')
                      @ '' places nearby'')),
                   (''count'', array_length rs),
                   (''searchParams'', JObj
                      [(''location'', opt_chain (JObj body) ''location''),
                       (''type'', opt_chain (JObj body) ''type''),
                       (''radius'', default_radius (opt_chain (JObj body) ''radius''))]),
                   (''results'', JArr rs)])"
      by (simp_all del: opt_chain.simps)
    then show ?thesis
      by (simp add: tool_field_def http_data_def)
  qed
next
  assume pid: "placeId \<noteq> []"
  have both: "keys_of (tool_details rt env client placeId) = keys_of (http_details rt env client placeId)
      \<and> (\<forall>k. k \<noteq> ''photos'' \<longrightarrow>
            opt_chain (tool_details rt env client placeId) k
            = opt_chain (http_details rt env client placeId) k)
      \<and> is_array (opt_chain (tool_details rt env client placeId) ''photos'')
        = is_array (opt_chain (http_details rt env client placeId) ''photos'')
      \<and> elements (opt_chain (tool_details rt env client placeId) ''photos'')
        = take 3 (elements (opt_chain (http_details rt env client placeId) ''photos''))"
  proof (cases "fst (getPlaceDetails rt env client (JStr placeId))")
    case (Inl e)
    from details_shells_fail [OF pid Inl] show ?thesis
      by (simp add: http_details_data tool_details_field http_data_def tool_field_def
          errorHandler_no_data elements_simps)
  next
    case (Inr pd)
    have "\<forall>k. k \<noteq> ''photos'' \<longrightarrow> opt_chain (tool_details rt env client placeId) k = opt_chain pd k"
      using details_shells [OF pid Inr] by blast
    with details_shells [OF pid Inr, of "''id''"] show ?thesis
      by (simp add: is_array_def elements_simps)
  qed
  from both show "keys_of (tool_details rt env client placeId)
                  = keys_of (http_details rt env client placeId)"
    by (rule conjunct1)
  from both show "is_array (opt_chain (tool_details rt env client placeId) ''photos'')
        = is_array (opt_chain (http_details rt env client placeId) ''photos'')"
    by simp
  from both show "elements (opt_chain (tool_details rt env client placeId) ''photos'')
        = take 3 (elements (opt_chain (http_details rt env client placeId) ''photos''))"
    by simp
  fix k assume "k \<noteq> ''photos''"
  with both show "opt_chain (tool_details rt env client placeId) k
            = opt_chain (http_details rt env client placeId) k"
    by simp
qed


theorem shells_agree_up_to_photos_witness:
  "keys_of (tool_details sample_runtime sample_env
               (fixed_client (place_with_photos [''a'', ''b'', ''c'', ''d''])) ''p1'')
     = keys_of (http_details sample_runtime sample_env
               (fixed_client (place_with_photos [''a'', ''b'', ''c'', ''d''])) ''p1'')
   \<and> opt_chain (tool_details sample_runtime sample_env
               (fixed_client (place_with_photos [''a'', ''b'', ''c'', ''d''])) ''p1'') ''reviews''
     = opt_chain (http_details sample_runtime sample_env
               (fixed_client (place_with_photos [''a'', ''b'', ''c'', ''d''])) ''p1'') ''reviews''
   \<and> elements (opt_chain (tool_details sample_runtime sample_env
               (fixed_client (place_with_photos [''a'', ''b'', ''c'', ''d''])) ''p1'') ''photos'')
     = take 3 (elements (opt_chain (http_details sample_runtime sample_env
               (fixed_client (place_with_photos [''a'', ''b'', ''c'', ''d''])) ''p1'') ''photos''))
   \<and> tool_field ''results'' (fst (handleSearchPlaces_payload sample_runtime sample_env
         (fixed_client sample_places) (JObj [(''query'', JStr ''pizza'')])))
     = http_data (fst (api_places sample_runtime sample_env (fixed_client sample_places)
         \<lparr>req_method = POST, req_path = [''search''],
            req_body = [(''query'', JStr ''pizza'')]\<rparr>))
   \<and> tool_field ''results'' (fst (handleFindNearbyPlaces_payload sample_runtime sample_env
         (fixed_client sample_places)
         (JObj [(''location'', JObj [(''lat'', JNum (Fin 1)), (''lng'', JNum (Fin 2))]),
                (''type'', JStr ''cafe'')])))
     = http_data (fst (api_places sample_runtime sample_env (fixed_client sample_places)
         \<lparr>req_method = POST, req_path = [''nearby''],
            req_body = [(''location'', JObj [(''lat'', JNum (Fin 1)), (''lng'', JNum (Fin 2))]),
                        (''type'', JStr ''cafe'')]\<rparr>))"
proof -
  have search: "validateSearchParams [(''query'', JStr ''pizza'')] = None
      \<and> opt_chain (JObj [(''query'', JStr ''pizza'')]) ''radius'' \<noteq> JNum NaN"
    by (simp add: validateSearchParams_def not_nonblank_string_def trim_def is_ws_def)
  have nearby: "validateLocationParams
        [(''location'', JObj [(''lat'', JNum (Fin 1)), (''lng'', JNum (Fin 2))]),
         (''type'', JStr ''cafe'')] = None
      \<and> opt_chain (JObj
        [(''location'', JObj [(''lat'', JNum (Fin 1)), (''lng'', JNum (Fin 2))]),
         (''type'', JStr ''cafe'')]) ''radius'' \<noteq> JNum NaN"
    by (simp add: validateLocationParams_def isValidLocation_def as_number_def
        not_nonblank_string_def trim_def is_ws_def)
  note searched = shells_agree_up_to_photos
    [of "[(''query'', JStr ''pizza'')]" sample_runtime sample_env "fixed_client sample_places"
        "''p1''", THEN conjunct1, THEN mp, OF search]
  note found = shells_agree_up_to_photos
    [of "[(''location'', JObj [(''lat'', JNum (Fin 1)), (''lng'', JNum (Fin 2))]),
          (''type'', JStr ''cafe'')]" sample_runtime sample_env "fixed_client sample_places"
        "''p1''", THEN conjunct2, THEN conjunct1, THEN mp, OF nearby]
  have pid: "''p1'' \<noteq> []"
    by simp
  note details = shells_agree_up_to_photos
    [of "[]" sample_runtime sample_env
        "fixed_client (place_with_photos [''a'', ''b'', ''c'', ''d''])" "''p1''",
     THEN conjunct2, THEN conjunct2, THEN mp, OF pid]
  have reviews: "''reviews'' \<noteq> ''photos''"
    by simp
  from details [THEN conjunct1]
    details [THEN conjunct2, THEN conjunct1, THEN spec, of "''reviews''", THEN mp, OF reviews]
    details [THEN conjunct2, THEN conjunct2, THEN conjunct2]
    searched found
  show ?thesis
    by (intro conjI)
qed

text \<open>
  C3 as stated fails: for a provider response with four photos the HTTP shell delivers
  four photos and the tool shell three.
\<close>

theorem shells_differ_on_photos:
  "length (elements (opt_chain (http_details sample_runtime sample_env
      (fixed_client (place_with_photos [''a'', ''b'', ''c'', ''d''])) ''p1'') ''photos'')) = 4
   \<and> length (elements (opt_chain (tool_details sample_runtime sample_env
      (fixed_client (place_with_photos [''a'', ''b'', ''c'', ''d''])) ''p1'') ''photos'')) = 3"
proof -
  have ok: "provider_details (place_with_photos [''a'', ''b'', ''c'', ''d''])"
    by (simp add: provider_details_def provider_place_def absent_or_string_def
        absent_or_entries_def place_with_photos_def photo_named_def)
  have pd: "fst (getPlaceDetails sample_runtime sample_env
      (fixed_client (place_with_photos [''a'', ''b'', ''c'', ''d''])) (JStr ''p1''))
    = formatPlaceDetails sample_runtime sample_env (place_with_photos [''a'', ''b'', ''c'', ''d''])"
    by (simp add: getPlaceDetails_def placesService_instance_def PlacesService_getPlaceDetails_def
        rethrow_as_def fixed_client_def sample_env_def env_value_def Let_def
        formatPlaceDetails_def details_with_ok [OF ok formatPhoto_ok])
  have photos: "elements (opt_chain (place_with_photos [''a'', ''b'', ''c'', ''d'']) ''photos'')
      = map photo_named [''a'', ''b'', ''c'', ''d'']"
    by (simp add: place_with_photos_def elements_simps)
  have http: "length (elements (opt_chain (http_details sample_runtime sample_env
      (fixed_client (place_with_photos [''a'', ''b'', ''c'', ''d''])) ''p1'') ''photos'')) = 4"
    by (simp add: http_details_def api_places_def placesRouter_def find_place get_placeId_def
        Let_def pd formatPlaceDetails_def details_with_ok [OF ok formatPhoto_ok] photos
        elements_simps)
  have tool: "length (elements (opt_chain (tool_details sample_runtime sample_env
      (fixed_client (place_with_photos [''a'', ''b'', ''c'', ''d''])) ''p1'') ''photos'')) = 3"
    by (simp add: tool_details_def handleGetPlaceDetails_payload_def member_def
        Let_def pd formatPlaceDetails_def details_with_ok [OF ok formatPhoto_ok] photos
        pick_def detail_keys_def result_keys_def opt_slice_def spread_def elements_simps)
  from http tool show ?thesis
    by (rule conjI)
qed

section \<open>The dispatcher, tool by tool\<close>

lemma callTool_unknown:
  "name \<notin> {''search_places'', ''find_nearby_places'', ''get_place_details'', ''get_place_types''} \<longrightarrow>
   callTool rt env client name args =
     (\<lparr>content = [\<lparr>item_type = ''text'',
                     item_text = ''Error executing '' @ name @ '': Unknown tool: '' @ name\<rparr>],
       isError = Some True\<rparr>, [])"
  by (simp add: callTool_def tool_switch_def Let_def new_Error_def)

lemma callTool_types:
  "callTool rt env client ''get_place_types'' args =
     (\<lparr>content = [\<lparr>item_type = ''text'', item_text = JSON_stringify rt (JObj
         [(''success'', JBool True),
          (''message'', JStr ''Available place types for AI agent searches''),
          (''count'', JNum (Fin 29)),
          (''placeTypes'', JArr (map JStr commonTypes)),
          (''usage'', JStr
             ''Use these types with find_nearby_places or as type filter in search_places'')])\<rparr>],
       isError = None\<rparr>, [])"
  by (simp add: callTool_def tool_switch_def Let_def text_response_def
      handleGetPlaceTypes_payload_def array_length_def commonTypes_def)

lemma callTool_search:
  "fst (callTool rt env client ''search_places'' args) =
     (if nullish args
      then \<lparr>content = [\<lparr>item_type = ''text'',
              item_text = ''Error executing search_places: '' @ TypeError_message rt ''query''\<rparr>],
            isError = Some True\<rparr>
      else (case fst (searchPlaces rt env client (JObj
                  ([(''query'', opt_chain args ''query'')]
                   @ spread (and_then (opt_chain args ''location'')
                               (JObj [(''location'', opt_chain args ''location'')]))
                   @ spread (and_then (opt_chain args ''radius'')
                               (JObj [(''radius'', opt_chain args ''radius'')]))
                   @ spread (and_then (opt_chain args ''type'')
                               (JObj [(''type'', opt_chain args ''type'')]))))) of
              Inl e \<Rightarrow>
                \<lparr>content = [\<lparr>item_type = ''text'',
                    item_text = ''Error executing search_places: '' @ err_message e\<rparr>],
                  isError = Some True\<rparr>
            | Inr results \<Rightarrow>
                \<lparr>content = [\<lparr>item_type = ''text'', item_text = JSON_stringify rt (JObj
                    [(''success'', JBool True),
                     (''message'', JStr (''Found '' @ toString rt (array_length results)
                        @ '' places for \"'' @ toString rt (opt_chain args ''query'') @ ''\"'')),
                     (''count'', array_length results),
                     (''results'', JArr results)])\<rparr>],
                  isError = None\<rparr>))"
proof (cases "nullish args")
  case True
  then show ?thesis
    by (simp add: callTool_def tool_switch_def wrap_payload_def Let_def
        handleSearchPlaces_payload_def member_def TypeError_def)
next
  case False
  show ?thesis
  proof (cases "fst (searchPlaces rt env client (JObj
                  ([(''query'', opt_chain args ''query'')]
                   @ spread (and_then (opt_chain args ''location'')
                               (JObj [(''location'', opt_chain args ''location'')]))
                   @ spread (and_then (opt_chain args ''radius'')
                               (JObj [(''radius'', opt_chain args ''radius'')]))
                   @ spread (and_then (opt_chain args ''type'')
                               (JObj [(''type'', opt_chain args ''type'')])))))")
    case (Inl e)
    from handleSearchPlaces_payload_Inl [OF False Inl] False Inl show ?thesis
      by (simp add: callTool_def tool_switch_def wrap_payload_def Let_def)
  next
    case (Inr rs)
    from handleSearchPlaces_payload_Inr [OF False Inr] False Inr show ?thesis
      by (simp add: callTool_def tool_switch_def wrap_payload_def Let_def text_response_def)
  qed
qed

lemma callTool_nearby:
  "fst (callTool rt env client ''find_nearby_places'' args) =
     (if nullish args
      then \<lparr>content = [\<lparr>item_type = ''text'',
              item_text = ''Error executing find_nearby_places: '' @ TypeError_message rt ''radius''\<rparr>],
            isError = Some True\<rparr>
      else (case fst (findNearbyPlaces rt env client (opt_chain args ''location'')
                        (opt_chain args ''type'')
                        (or_else (opt_chain args ''radius'') (JNum (Fin 5000)))) of
              Inl e \<Rightarrow>
                \<lparr>content = [\<lparr>item_type = ''text'',
                    item_text = ''Error executing find_nearby_places: '' @ err_message e\<rparr>],
                  isError = Some True\<rparr>
            | Inr results \<Rightarrow>
                \<lparr>content = [\<lparr>item_type = ''text'', item_text = JSON_stringify rt (JObj
                    [(''success'', JBool True),
                     (''message'', JStr (''Found '' @ toString rt (array_length results)
                        @ '' '' @ toString rt (opt_chain args ''type'') @ '' places nearby'')),
                     (''count'', array_length results),
                     (''searchParams'', JObj
                        [(''location'', opt_chain args ''location''),
                         (''type'', opt_chain args ''type''),
                         (''radius'', or_else (opt_chain args ''radius'') (JNum (Fin 5000)))]),
                     (''results'', JArr results)])\<rparr>],
                  isError = None\<rparr>))"
proof (cases "nullish args")
  case True
  then show ?thesis
    by (simp add: callTool_def tool_switch_def wrap_payload_def Let_def
        handleFindNearbyPlaces_payload_def member_def TypeError_def)
next
  case False
  show ?thesis
  proof (cases "fst (findNearbyPlaces rt env client (opt_chain args ''location'')
                        (opt_chain args ''type'')
                        (or_else (opt_chain args ''radius'') (JNum (Fin 5000))))")
    case (Inl e)
    with False show ?thesis
      by (simp add: callTool_def tool_switch_def wrap_payload_def Let_def
          handleFindNearbyPlaces_payload_def member_def)
  next
    case (Inr rs)
    from findNearbyPlaces_results [OF Inr] obtain v where "formatSearchResults rt v = Inr rs" ..
    then have "map_throwing (pick rt result_keys) rs = Inr rs"
      by (rule pick_results)
    with False Inr show ?thesis
      by (simp add: callTool_def tool_switch_def wrap_payload_def Let_def text_response_def
          handleFindNearbyPlaces_payload_def member_def)
  qed
qed

lemma callTool_details:
  "fst (callTool rt env client ''get_place_details'' args) =
     (if nullish args
      then \<lparr>content = [\<lparr>item_type = ''text'',
              item_text = ''Error executing get_place_details: '' @ TypeError_message rt ''placeId''\<rparr>],
            isError = Some True\<rparr>
      else (case fst (getPlaceDetails rt env client (opt_chain args ''placeId'')) of
              Inl e \<Rightarrow>
                \<lparr>content = [\<lparr>item_type = ''text'',
                    item_text = ''Error executing get_place_details: '' @ err_message e\<rparr>],
                  isError = Some True\<rparr>
            | Inr placeDetails \<Rightarrow>
                \<lparr>content = [\<lparr>item_type = ''text'', item_text = JSON_stringify rt (JObj
                    [(''success'', JBool True),
                     (''message'', JStr (''Details for ''
                        @ toString rt (opt_chain placeDetails ''name''))),
                     (''placeDetails'', JObj
                        (map (\<lambda>k. (k, opt_chain placeDetails k))
                           [''id'', ''name'', ''address'', ''location'', ''rating'',
                            ''priceLevel'', ''types'', ''isOpen'', ''phoneNumber'', ''website'',
                            ''openingHours'', ''reviews'']
                         @ [(''photos'',
                             JArr (take 3 (elements (opt_chain placeDetails ''photos''))))]))])\<rparr>],
                  isError = None\<rparr>))"
proof (cases "nullish args")
  case True
  then show ?thesis
    by (simp add: callTool_def tool_switch_def wrap_payload_def Let_def
        handleGetPlaceDetails_payload_def member_def TypeError_def)
next
  case False
  show ?thesis
  proof (cases "fst (getPlaceDetails rt env client (opt_chain args ''placeId''))")
    case (Inl e)
    with False show ?thesis
      by (simp add: callTool_def tool_switch_def wrap_payload_def Let_def
          handleGetPlaceDetails_payload_def member_def)
  next
    case (Inr pd)
    from fst_getPlaceDetails_structure [OF Inr] obtain a b c l e f g h ph w oh rs ps where
      pd: "pd = JObj
       [(''id'', a), (''name'', b), (''address'', c), (''location'', l), (''rating'', e),
        (''priceLevel'', f), (''types'', g), (''isOpen'', h), (''phoneNumber'', ph),
        (''website'', w), (''openingHours'', oh), (''reviews'', JArr rs), (''photos'', JArr ps)]"
      and len: "length rs \<le> 5"
      by (elim exE conjE)
    from False Inr len show ?thesis
      by (simp add: callTool_def tool_switch_def wrap_payload_def Let_def text_response_def
          handleGetPlaceDetails_payload_def member_def pd pick_def detail_keys_def
          result_keys_def opt_slice_def spread_def elements_simps)
  qed
qed

text \<open>
  C9. The dispatcher returns a response in every case, and never throws. An unknown tool
  name gives the error variant with the text \<open>Error executing <name>: Unknown tool:
  <name>\<close>. Each known name reaches its own handler. When the handler throws, because
  the arguments are missing or because the adapter has thrown, the response is the error
  variant whose single text is \<open>Error executing <name>: <message>\<close> with the message of
  what was thrown. When the handler returns, the response is not flagged as an error and
  its text is the JSON of the envelope: \<open>success: true\<close>, a message, and the payload of
  the operation (the adapter's \<open>results\<close> with their count, the \<open>placeDetails\<close> copied
  from the adapter's with the photos cut to three, or the 29 \<open>placeTypes\<close>).
\<close>

theorem callTool_error_variant_or_envelope:
  "(name \<notin> {''search_places'', ''find_nearby_places'', ''get_place_details'', ''get_place_types''} \<longrightarrow>
   callTool rt env client name args =
     (\<lparr>content = [\<lparr>item_type = ''text'',
                     item_text = ''Error executing '' @ name @ '': Unknown tool: '' @ name\<rparr>],
       isError = Some True\<rparr>, []))
   \<and> (callTool rt env client ''get_place_types'' args =
     (\<lparr>content = [\<lparr>item_type = ''text'', item_text = JSON_stringify rt (JObj
         [(''success'', JBool True),
          (''message'', JStr ''Available place types for AI agent searches''),
          (''count'', JNum (Fin 29)),
          (''placeTypes'', JArr (map JStr commonTypes)),
          (''usage'', JStr
             ''Use these types with find_nearby_places or as type filter in search_places'')])\<rparr>],
       isError = None\<rparr>, []))
   \<and> (fst (callTool rt env client ''search_places'' args) =
     (if nullish args
      then \<lparr>content = [\<lparr>item_type = ''text'',
              item_text = ''Error executing search_places: '' @ TypeError_message rt ''query''\<rparr>],
            isError = Some True\<rparr>
      else (case fst (searchPlaces rt env client (JObj
                  ([(''query'', opt_chain args ''query'')]
                   @ spread (and_then (opt_chain args ''location'')
                               (JObj [(''location'', opt_chain args ''location'')]))
                   @ spread (and_then (opt_chain args ''radius'')
                               (JObj [(''radius'', opt_chain args ''radius'')]))
                   @ spread (and_then (opt_chain args ''type'')
                               (JObj [(''type'', opt_chain args ''type'')]))))) of
              Inl e \<Rightarrow>
                \<lparr>content = [\<lparr>item_type = ''text'',
                    item_text = ''Error executing search_places: '' @ err_message e\<rparr>],
                  isError = Some True\<rparr>
            | Inr results \<Rightarrow>
                \<lparr>content = [\<lparr>item_type = ''text'', item_text = JSON_stringify rt (JObj
                    [(''success'', JBool True),
                     (''message'', JStr (''Found '' @ toString rt (array_length results)
                        @ '' places for \"'' @ toString rt (opt_chain args ''query'') @ ''\"'')),
                     (''count'', array_length results),
                     (''results'', JArr results)])\<rparr>],
                  isError = None\<rparr>)))
   \<and> (fst (callTool rt env client ''find_nearby_places'' args) =
     (if nullish args
      then \<lparr>content = [\<lparr>item_type = ''text'',
              item_text = ''Error executing find_nearby_places: '' @ TypeError_message rt ''radius''\<rparr>],
            isError = Some True\<rparr>
      else (case fst (findNearbyPlaces rt env client (opt_chain args ''location'')
                        (opt_chain args ''type'')
                        (or_else (opt_chain args ''radius'') (JNum (Fin 5000)))) of
              Inl e \<Rightarrow>
                \<lparr>content = [\<lparr>item_type = ''text'',
                    item_text = ''Error executing find_nearby_places: '' @ err_message e\<rparr>],
                  isError = Some True\<rparr>
            | Inr results \<Rightarrow>
                \<lparr>content = [\<lparr>item_type = ''text'', item_text = JSON_stringify rt (JObj
                    [(''success'', JBool True),
                     (''message'', JStr (''Found '' @ toString rt (array_length results)
                        @ '' '' @ toString rt (opt_chain args ''type'') @ '' places nearby'')),
                     (''count'', array_length results),
                     (''searchParams'', JObj
                        [(''location'', opt_chain args ''location''),
                         (''type'', opt_chain args ''type''),
                         (''radius'', or_else (opt_chain args ''radius'') (JNum (Fin 5000)))]),
                     (''results'', JArr results)])\<rparr>],
                  isError = None\<rparr>)))
   \<and> (fst (callTool rt env client ''get_place_details'' args) =
     (if nullish args
      then \<lparr>content = [\<lparr>item_type = ''text'',
              item_text = ''Error executing get_place_details: '' @ TypeError_message rt ''placeId''\<rparr>],
            isError = Some True\<rparr>
      else (case fst (getPlaceDetails rt env client (opt_chain args ''placeId'')) of
              Inl e \<Rightarrow>
                \<lparr>content = [\<lparr>item_type = ''text'',
                    item_text = ''Error executing get_place_details: '' @ err_message e\<rparr>],
                  isError = Some True\<rparr>
            | Inr placeDetails \<Rightarrow>
                \<lparr>content = [\<lparr>item_type = ''text'', item_text = JSON_stringify rt (JObj
                    [(''success'', JBool True),
                     (''message'', JStr (''Details for ''
                        @ toString rt (opt_chain placeDetails ''name''))),
                     (''placeDetails'', JObj
                        (map (\<lambda>k. (k, opt_chain placeDetails k))
                           [''id'', ''name'', ''address'', ''location'', ''rating'',
                            ''priceLevel'', ''types'', ''isOpen'', ''phoneNumber'', ''website'',
                            ''openingHours'', ''reviews'']
                         @ [(''photos'',
                             JArr (take 3 (elements (opt_chain placeDetails ''photos''))))]))])\<rparr>],
                  isError = None\<rparr>)))"
  by (intro conjI callTool_unknown callTool_types callTool_search callTool_nearby
      callTool_details)

theorem callTool_error_variant_or_envelope_witness:
  "callTool sample_runtime sample_env (failing_client quota_error) ''nope'' JUndefined
     = (\<lparr>content = [\<lparr>item_type = ''text'',
                       item_text = ''Error executing nope: Unknown tool: nope''\<rparr>],
         isError = Some True\<rparr>, [])
   \<and> callTool sample_runtime sample_env (failing_client quota_error) ''get_place_types'' JUndefined
     = (\<lparr>content = [\<lparr>item_type = ''text'', item_text = ''<json>''\<rparr>], isError = None\<rparr>, [])
   \<and> fst (callTool sample_runtime sample_env (failing_client quota_error) ''search_places''
          (JObj [(''query'', JStr ''pizza'')]))
     = \<lparr>content = [\<lparr>item_type = ''text'',
           item_text = ''Error executing search_places: Failed to search places''\<rparr>],
         isError = Some True\<rparr>
   \<and> fst (callTool sample_runtime sample_env (fixed_client sample_places) ''search_places''
          (JObj [(''query'', JStr ''pizza'')]))
     = \<lparr>content = [\<lparr>item_type = ''text'', item_text = ''<json>''\<rparr>], isError = None\<rparr>
   \<and> fst (callTool sample_runtime sample_env (fixed_client sample_places) ''get_place_details''
          JUndefined)
     = \<lparr>content = [\<lparr>item_type = ''text'',
           item_text = ''Error executing get_place_details: Cannot read properties of undefined (reading placeId)''\<rparr>],
         isError = Some True\<rparr>"
proof -
  have key: "truthy (env_value (GOOGLE_PLACES_API_KEY sample_env))"
    by (simp add: sample_env_def env_value_def)
  have found: "fst (searchPlaces sample_runtime sample_env (fixed_client sample_places)
      (JObj [(''query'', JStr ''pizza'')]))
    = Inr [JObj [(''id'', JStr ''p1''), (''name'', JStr ''Unknown''),
                 (''address'', JStr ''Address not available''),
                 (''location'', JObj [(''lat'', JNum (Fin 0)), (''lng'', JNum (Fin 0))]),
                 (''rating'', JUndefined), (''priceLevel'', JUndefined),
                 (''types'', JArr []), (''isOpen'', JUndefined)]]"
    by (simp add: searchPlaces_def placesService_instance_def PlacesService_searchPlaces_def
        searchPlaces_catch_def searchPlaces_request_def fixed_client_def sample_places_def
        sample_env_def env_value_def member_def or_else_def formatSearchResults_def
        formatSearchResult_def Let_def)
  have falsy: "spread JUndefined = []"
    by (simp add: spread_def)
  have json: "JSON_stringify sample_runtime v = ''<json>''" for v
    by (simp add: sample_runtime_def)
  have wording: "TypeError_message sample_runtime what
      = ''Cannot read properties of undefined (reading '' @ what @ '')''" for what
    by (simp add: sample_runtime_def)
  note all = callTool_error_variant_or_envelope
  from all [of "''nope''" sample_runtime sample_env "failing_client quota_error" JUndefined]
  have unknown: "callTool sample_runtime sample_env (failing_client quota_error) ''nope'' JUndefined
     = (\<lparr>content = [\<lparr>item_type = ''text'',
                       item_text = ''Error executing nope: Unknown tool: nope''\<rparr>],
         isError = Some True\<rparr>, [])"
    by simp
  from all [of "''nope''" sample_runtime sample_env "failing_client quota_error" JUndefined]
  have types: "callTool sample_runtime sample_env (failing_client quota_error)
      ''get_place_types'' JUndefined
     = (\<lparr>content = [\<lparr>item_type = ''text'', item_text = ''<json>''\<rparr>], isError = None\<rparr>, [])"
    by (simp add: json)
  from all [of "''nope''" sample_runtime sample_env "failing_client quota_error"
              "JObj [(''query'', JStr ''pizza'')]"]
  have thrown: "fst (callTool sample_runtime sample_env (failing_client quota_error)
      ''search_places'' (JObj [(''query'', JStr ''pizza'')]))
     = \<lparr>content = [\<lparr>item_type = ''text'',
           item_text = ''Error executing search_places: Failed to search places''\<rparr>],
         isError = Some True\<rparr>"
    by (simp add: and_then_def falsy search_fails [OF key] new_Error_def)
  from all [of "''nope''" sample_runtime sample_env "fixed_client sample_places"
              "JObj [(''query'', JStr ''pizza'')]"]
  have ok: "fst (callTool sample_runtime sample_env (fixed_client sample_places)
      ''search_places'' (JObj [(''query'', JStr ''pizza'')]))
     = \<lparr>content = [\<lparr>item_type = ''text'', item_text = ''<json>''\<rparr>], isError = None\<rparr>"
    by (simp add: and_then_def falsy found json)
  from all [of "''nope''" sample_runtime sample_env "fixed_client sample_places" JUndefined]
  have nullish: "fst (callTool sample_runtime sample_env (fixed_client sample_places)
      ''get_place_details'' JUndefined)
     = \<lparr>content = [\<lparr>item_type = ''text'',
           item_text = ''Error executing get_place_details: Cannot read properties of undefined (reading placeId)''\<rparr>],
         isError = Some True\<rparr>"
    by (simp add: wording)
  from unknown types thrown ok nullish show ?thesis
    by (intro conjI)
qed

end
